theory Spec2Isabelle
  imports Complex_Main "HOL-Library.Sublist"
begin

section \<open>Configuration (config/config.py)\<close>

text \<open>
  Python floats are modelled as \<^typ>\<open>real\<close>: the development verifies the formulas of
  the mapping pipeline, not their IEEE rounding.  Console output (\<open>print\<close>) is not modelled.
  The buttons of the virtual pad are the members of vgamepad's \<open>XUSB_BUTTON\<close> enumeration.
\<close>

datatype XUSB_BUTTON =
    XUSB_GAMEPAD_DPAD_UP | XUSB_GAMEPAD_DPAD_DOWN | XUSB_GAMEPAD_DPAD_LEFT
  | XUSB_GAMEPAD_DPAD_RIGHT | XUSB_GAMEPAD_START | XUSB_GAMEPAD_BACK
  | XUSB_GAMEPAD_LEFT_THUMB | XUSB_GAMEPAD_RIGHT_THUMB | XUSB_GAMEPAD_LEFT_SHOULDER
  | XUSB_GAMEPAD_RIGHT_SHOULDER | XUSB_GAMEPAD_GUIDE | XUSB_GAMEPAD_A | XUSB_GAMEPAD_B
  | XUSB_GAMEPAD_X | XUSB_GAMEPAD_Y

text \<open>
  The class attributes of \<open>Config\<close> that the engine reads.  They are ambient mutable
  globals in the source; here every operation that reads them takes the configuration in
  force as an argument.  \<open>KEY_MAPPINGS\<close> is a dictionary that the engine iterates in
  insertion order, hence an association list.
\<close>

record config =
  UPDATE_RATE_HZ :: int
  DPI_SCALING :: real
  SENS_X :: real
  SENS_Y :: real
  ADS_SENS_MULTIPLIER :: real
  DEADZONE :: real
  SMOOTHING :: real
  RECOIL_CONTROL_ENABLED :: bool
  RECOIL_COMPENSATION :: real
  KEY_MAPPINGS :: "(string \<times> XUSB_BUTTON) list"
  TOGGLE_KEY :: string

text \<open>\<open>JOYSTICK_KEYS\<close> is never reassigned anywhere in the source: a constant.\<close>

definition JOYSTICK_KEYS :: "string list" where
  "JOYSTICK_KEYS = [''w'', ''a'', ''s'', ''d'']"

definition default_KEY_MAPPINGS :: "(string \<times> XUSB_BUTTON) list" where
  "default_KEY_MAPPINGS =
    [(''space'', XUSB_GAMEPAD_A), (''c'', XUSB_GAMEPAD_B), (''r'', XUSB_GAMEPAD_X),
     (''1'', XUSB_GAMEPAD_Y), (''2'', XUSB_GAMEPAD_DPAD_UP),
     (''alt_l'', XUSB_GAMEPAD_DPAD_DOWN), (''b'', XUSB_GAMEPAD_DPAD_LEFT),
     (''3'', XUSB_GAMEPAD_DPAD_RIGHT), (''q'', XUSB_GAMEPAD_LEFT_SHOULDER),
     (''e'', XUSB_GAMEPAD_RIGHT_SHOULDER), (''esc'', XUSB_GAMEPAD_START),
     (''tab'', XUSB_GAMEPAD_BACK), (''shift'', XUSB_GAMEPAD_LEFT_THUMB),
     (''f'', XUSB_GAMEPAD_RIGHT_THUMB)]"

definition default_config :: config where
  "default_config =
    \<lparr> UPDATE_RATE_HZ = 120, DPI_SCALING = 0.013, SENS_X = 1.0, SENS_Y = 1.0,
      ADS_SENS_MULTIPLIER = 0.9, DEADZONE = 0.0012, SMOOTHING = 0.0,
      RECOIL_CONTROL_ENABLED = True, RECOIL_COMPENSATION = 1.8,
      KEY_MAPPINGS = default_KEY_MAPPINGS, TOGGLE_KEY = ''t'' \<rparr>"

section \<open>The virtual device (vgamepad's \<open>VX360Gamepad\<close>, at its interface)\<close>

text \<open>
  The device binding is an external library.  It is modelled at the interface the engine
  uses: setters overwrite the pending report, \<open>update\<close> sends the pending report to the
  consumers.  \<open>sent\<close> lists the reports sent so far, oldest first.  The setters are taken
  not to raise.
\<close>

record report =
  left_joystick :: "real \<times> real"
  right_joystick :: "real \<times> real"
  wButtons :: "XUSB_BUTTON set"
  left_trigger :: real
  right_trigger :: real

record VX360Gamepad =
  pending :: report
  sent :: "report list"

definition neutral_report :: report where
  "neutral_report =
    \<lparr> left_joystick = (0, 0), right_joystick = (0, 0), wButtons = {},
      left_trigger = 0, right_trigger = 0 \<rparr>"

definition new_VX360Gamepad :: VX360Gamepad where
  "new_VX360Gamepad = \<lparr> pending = neutral_report, sent = [] \<rparr>"

definition left_joystick_float :: "real \<Rightarrow> real \<Rightarrow> VX360Gamepad \<Rightarrow> VX360Gamepad" where
  "left_joystick_float x y g = g\<lparr>pending := (pending g)\<lparr>left_joystick := (x, y)\<rparr>\<rparr>"

definition right_joystick_float :: "real \<Rightarrow> real \<Rightarrow> VX360Gamepad \<Rightarrow> VX360Gamepad" where
  "right_joystick_float x y g = g\<lparr>pending := (pending g)\<lparr>right_joystick := (x, y)\<rparr>\<rparr>"

definition press_button :: "XUSB_BUTTON \<Rightarrow> VX360Gamepad \<Rightarrow> VX360Gamepad" where
  "press_button b g = g\<lparr>pending := (pending g)\<lparr>wButtons := insert b (wButtons (pending g))\<rparr>\<rparr>"

definition release_button :: "XUSB_BUTTON \<Rightarrow> VX360Gamepad \<Rightarrow> VX360Gamepad" where
  "release_button b g = g\<lparr>pending := (pending g)\<lparr>wButtons := wButtons (pending g) - {b}\<rparr>\<rparr>"

definition left_trigger_float :: "real \<Rightarrow> VX360Gamepad \<Rightarrow> VX360Gamepad" where
  "left_trigger_float v g = g\<lparr>pending := (pending g)\<lparr>left_trigger := v\<rparr>\<rparr>"

definition right_trigger_float :: "real \<Rightarrow> VX360Gamepad \<Rightarrow> VX360Gamepad" where
  "right_trigger_float v g = g\<lparr>pending := (pending g)\<lparr>right_trigger := v\<rparr>\<rparr>"

definition update :: "VX360Gamepad \<Rightarrow> VX360Gamepad" where
  "update g = g\<lparr>sent := sent g @ [pending g]\<rparr>"

section \<open>Collaborators: cursor manager and listeners\<close>

text \<open>
  \<open>CursorManager.__init__\<close> sets \<open>center_x\<close> and \<open>center_y\<close> only when the OS calls
  succeed, so either attribute may be missing.  Its three methods catch their own
  exceptions; the engine ignores their results.  The requests the engine makes to the
  cursor manager, to the listeners and to the clock are recorded in order in \<open>calls\<close>.
\<close>

record CursorManager =
  enabled :: bool
  center_x :: "int option"
  center_y :: "int option"

record ConditionalSuppressMouseListener =
  m_suppress :: bool

record ConditionalSuppressKeyboardListener =
  k_suppress :: bool
  toggle_key :: string

datatype call =
    Sleep real
  | Mouse_suppress_events bool
  | Keyboard_suppress_events bool
  | Lock_to_center
  | Hide_cursor
  | Show_cursor

datatype py_error = AttributeError | ZeroDivisionError

definition bind_err :: "'e + 'a \<Rightarrow> ('a \<Rightarrow> 'e + 'b) \<Rightarrow> 'e + 'b" where
  "bind_err m f = (case m of Inl e \<Rightarrow> Inl e | Inr x \<Rightarrow> f x)"

section \<open>The controller (infrastructure/gamepad\_controller.py)\<close>

record controller =
  gamepad :: "VX360Gamepad option"
  active :: bool
  cursor_manager :: CursorManager
  mouse_dx :: real
  mouse_dy :: real
  keys :: "string \<rightharpoonup> bool"
  joystick_keys :: "string \<rightharpoonup> bool"
  last_lx :: real
  last_ly :: real
  last_rx :: real
  last_ry :: real
  r2_held :: bool
  l2_held :: bool
  last_update :: real
  update_interval :: real
  mouse_listener :: "ConditionalSuppressMouseListener option"
  keyboard_listener :: "ConditionalSuppressKeyboardListener option"
  calls :: "call list"

text \<open>\<open>d.get(k, False)\<close> on a dictionary of flags.\<close>

definition get_flag :: "(string \<rightharpoonup> bool) \<Rightarrow> string \<Rightarrow> bool" where
  "get_flag d k = (case d k of None \<Rightarrow> False | Some b \<Rightarrow> b)"

text \<open>\<open>for key in d: d[key] = False\<close>.\<close>

definition clear_flags :: "(string \<rightharpoonup> bool) \<Rightarrow> (string \<rightharpoonup> bool)" where
  "clear_flags d = (\<lambda>k. map_option (\<lambda>_. False) (d k))"

text \<open>\<open>{k: False for k in ks}\<close>.\<close>

definition all_False :: "string list \<Rightarrow> (string \<rightharpoonup> bool)" where
  "all_False ks = map_of (map (\<lambda>k. (k, False)) ks)"

text \<open>
  \<open>initialize_gamepad\<close>: the argument \<open>driver_ok\<close> says whether the constructor
  \<open>vg.VX360Gamepad()\<close> returns a device (otherwise it raises, and the exception is
  caught).
\<close>

definition initialize_gamepad :: "bool \<Rightarrow> controller \<Rightarrow> bool \<times> controller" where
  "initialize_gamepad driver_ok s =
    (if gamepad s = None then
       (if driver_ok then (True, s\<lparr>gamepad := Some new_VX360Gamepad\<rparr>) else (False, s))
     else (True, s))"

text \<open>
  \<open>GamepadController.__init__\<close>; \<open>cm\<close> is the cursor manager as its constructor left it,
  \<open>now\<close> the clock.  The division raises when the configured rate is zero.
\<close>

definition GamepadController_init ::
    "config \<Rightarrow> CursorManager \<Rightarrow> real \<Rightarrow> bool \<Rightarrow> py_error + controller" where
  "GamepadController_init cfg cm now driver_ok =
    (if UPDATE_RATE_HZ cfg = 0 then Inl ZeroDivisionError
     else Inr (snd (initialize_gamepad driver_ok
       \<lparr> gamepad = None, active = False, cursor_manager = cm,
         mouse_dx = 0, mouse_dy = 0,
         keys = all_False (map fst (KEY_MAPPINGS cfg)),
         joystick_keys = all_False JOYSTICK_KEYS,
         last_lx = 0, last_ly = 0, last_rx = 0, last_ry = 0,
         r2_held = False, l2_held = False,
         last_update = now, update_interval = 1 / real_of_int (UPDATE_RATE_HZ cfg),
         mouse_listener = None, keyboard_listener = None, calls = [] \<rparr>)))"

subsection \<open>Movement stick\<close>

text \<open>One iteration of the loop over \<open>JOYSTICK_KEYS\<close>, on \<open>(lx, ly, any_key)\<close>.\<close>

fun joystick_key_step ::
    "(string \<rightharpoonup> bool) \<Rightarrow> string \<Rightarrow> real \<times> real \<times> bool \<Rightarrow> real \<times> real \<times> bool" where
  "joystick_key_step jk key (lx, ly, any_key) =
    (if get_flag jk key then
       (if key = ''d'' then (lx + 1, ly, True)
        else if key = ''a'' then (lx - 1, ly, True)
        else if key = ''w'' then (lx, ly + 1, True)
        else if key = ''s'' then (lx, ly - 1, True)
        else (lx, ly, True))
     else (lx, ly, any_key))"

definition left_joystick_values :: "(string \<rightharpoonup> bool) \<Rightarrow> real \<times> real" where
  "left_joystick_values jk =
    (case fold (joystick_key_step jk) JOYSTICK_KEYS (0, 0, False) of (lx, ly, any_key) \<Rightarrow>
       (case (if lx \<noteq> 0 \<and> ly \<noteq> 0
              then (let magnitude = sqrt (lx * lx + ly * ly)
                    in (lx / magnitude, ly / magnitude))
              else (lx, ly)) of (lx, ly) \<Rightarrow>
          (if \<not> any_key then (0, 0) else (lx, ly))))"

definition process_left_joystick :: "controller \<Rightarrow> py_error + controller" where
  "process_left_joystick s =
    (case left_joystick_values (joystick_keys s) of (lx, ly) \<Rightarrow>
       (case gamepad s of
          None \<Rightarrow> Inl AttributeError
        | Some g \<Rightarrow>
            Inr (s\<lparr>gamepad := Some (left_joystick_float lx ly g), last_lx := lx, last_ly := ly\<rparr>)))"

subsection \<open>Look stick\<close>

definition get_mouse_movement :: "controller \<Rightarrow> (real \<times> real) \<times> controller" where
  "get_mouse_movement s = ((mouse_dx s, mouse_dy s), s\<lparr>mouse_dx := 0, mouse_dy := 0\<rparr>)"

text \<open>Lines 222--241 of \<open>_process_right_joystick\<close>: from the drained displacement to the
  clamped pair.\<close>

definition right_joystick_values :: "config \<Rightarrow> controller \<Rightarrow> real \<times> real \<Rightarrow> real \<times> real" where
  "right_joystick_values cfg s d =
    (case d of (dx, dy) \<Rightarrow>
      (let dy = (if RECOIL_CONTROL_ENABLED cfg \<and> l2_held s
                 then dy + RECOIL_COMPENSATION cfg else dy);
           sens_multiplier = (if r2_held s then ADS_SENS_MULTIPLIER cfg else 1);
           rx = dx * SENS_X cfg * sens_multiplier * DPI_SCALING cfg;
           ry = - dy * SENS_Y cfg * sens_multiplier * DPI_SCALING cfg;
           rx = (if \<bar>rx\<bar> > DEADZONE cfg then rx else 0);
           ry = (if \<bar>ry\<bar> > DEADZONE cfg then ry else 0);
           rx = last_rx s * SMOOTHING cfg + rx * (1 - SMOOTHING cfg);
           ry = last_ry s * SMOOTHING cfg + ry * (1 - SMOOTHING cfg);
           rx = max (- 1) (min 1 rx);
           ry = max (- 1) (min 1 ry)
       in (rx, ry)))"

definition process_right_joystick :: "config \<Rightarrow> controller \<Rightarrow> py_error + controller" where
  "process_right_joystick cfg s =
    (case get_mouse_movement s of (d, s1) \<Rightarrow>
       (case right_joystick_values cfg s1 d of (rx, ry) \<Rightarrow>
          (case gamepad s1 of
             None \<Rightarrow> Inl AttributeError
           | Some g \<Rightarrow>
               Inr (s1\<lparr>gamepad := Some (right_joystick_float rx ry g),
                      last_rx := rx, last_ry := ry\<rparr>))))"

subsection \<open>Buttons and triggers\<close>

definition button_step ::
    "(string \<rightharpoonup> bool) \<Rightarrow> string \<times> XUSB_BUTTON \<Rightarrow> VX360Gamepad \<Rightarrow> VX360Gamepad" where
  "button_step ks kb g =
    (case kb of (key, button) \<Rightarrow>
       (if get_flag ks key then press_button button g else release_button button g))"

text \<open>With an empty table the loop body never touches the device.\<close>

definition process_buttons :: "config \<Rightarrow> controller \<Rightarrow> py_error + controller" where
  "process_buttons cfg s =
    (case gamepad s of
       None \<Rightarrow> (if KEY_MAPPINGS cfg = [] then Inr s else Inl AttributeError)
     | Some g \<Rightarrow> Inr (s\<lparr>gamepad := Some (fold (button_step (keys s)) (KEY_MAPPINGS cfg) g)\<rparr>))"

definition process_triggers :: "controller \<Rightarrow> py_error + controller" where
  "process_triggers s =
    (case gamepad s of
       None \<Rightarrow> Inl AttributeError
     | Some g \<Rightarrow>
         Inr (s\<lparr>gamepad := Some
           (left_trigger_float (if r2_held s then 1 else 0)
             (right_trigger_float (if l2_held s then 1 else 0) g))\<rparr>))"

subsection \<open>The scheduler tick\<close>

text \<open>The four mappers in the order \<open>process_inputs\<close> calls them.\<close>

definition run_mappers :: "config \<Rightarrow> controller \<Rightarrow> py_error + controller" where
  "run_mappers cfg s =
    bind_err (bind_err (bind_err (process_left_joystick s) (process_right_joystick cfg))
      (process_buttons cfg)) process_triggers"

definition gamepad_flush :: "controller \<Rightarrow> py_error + controller" where
  "gamepad_flush s =
    (case gamepad s of
       None \<Rightarrow> Inl AttributeError
     | Some g \<Rightarrow> Inr (s\<lparr>gamepad := Some (update g)\<rparr>))"

text \<open>\<open>process_inputs\<close>; \<open>now\<close> is the value \<open>time.time()\<close> returns.\<close>

definition process_inputs :: "real \<Rightarrow> config \<Rightarrow> controller \<Rightarrow> py_error + controller" where
  "process_inputs now cfg s =
    (if now - last_update s < update_interval s then Inr s
     else
       (let s1 = s\<lparr>last_update := now\<rparr> in
          if gamepad s1 = None then Inr s1
          else bind_err (if active s1 then run_mappers cfg s1 else Inr s1) gamepad_flush))"

text \<open>The controller after the four mappers ran on \<open>s\<close> with the device \<open>g\<close> present.\<close>

definition mapped :: "config \<Rightarrow> controller \<Rightarrow> VX360Gamepad \<Rightarrow> controller" where
  "mapped cfg s g =
    (let l = left_joystick_values (joystick_keys s);
         r = right_joystick_values cfg s (mouse_dx s, mouse_dy s)
     in s\<lparr>mouse_dx := 0, mouse_dy := 0,
          last_lx := fst l, last_ly := snd l, last_rx := fst r, last_ry := snd r,
          gamepad := Some
            (left_trigger_float (if r2_held s then 1 else 0)
              (right_trigger_float (if l2_held s then 1 else 0)
                (fold (button_step (keys s)) (KEY_MAPPINGS cfg)
                  (right_joystick_float (fst r) (snd r)
                    (left_joystick_float (fst l) (snd l) g)))))\<rparr>)"

subsection \<open>Activation and deactivation\<close>

definition reset_gamepad :: "config \<Rightarrow> controller \<Rightarrow> controller" where
  "reset_gamepad cfg s =
    (case gamepad s of
       None \<Rightarrow> s
     | Some g \<Rightarrow>
         s\<lparr>gamepad := Some
           (update
             (right_trigger_float 0
               (left_trigger_float 0
                 (fold release_button (map snd (KEY_MAPPINGS cfg))
                   (right_joystick_float 0 0 (left_joystick_float 0 0 g))))))\<rparr>)"

text \<open>One round of the wake-up loop in \<open>activate\<close>, on a device that is present.\<close>

definition wake_up_round :: "VX360Gamepad \<Rightarrow> VX360Gamepad" where
  "wake_up_round g =
    update (release_button XUSB_GAMEPAD_BACK (right_joystick_float 0 0
      (update (press_button XUSB_GAMEPAD_BACK (right_joystick_float 0.5 0 g)))))"

definition wake_up :: "controller \<Rightarrow> controller" where
  "wake_up s =
    (case gamepad s of
       None \<Rightarrow> s
     | Some g \<Rightarrow>
         s\<lparr>gamepad := Some ((wake_up_round ^^ 2) g),
           calls := calls s @ [Sleep 0.03, Sleep 0.03, Sleep 0.03, Sleep 0.03]\<rparr>)"

definition mouse_suppress_events :: "bool \<Rightarrow> controller \<Rightarrow> controller" where
  "mouse_suppress_events b s =
    (case mouse_listener s of
       None \<Rightarrow> s
     | Some l \<Rightarrow> s\<lparr>mouse_listener := Some (l\<lparr>m_suppress := b\<rparr>),
                   calls := calls s @ [Mouse_suppress_events b]\<rparr>)"

definition keyboard_suppress_events :: "bool \<Rightarrow> controller \<Rightarrow> controller" where
  "keyboard_suppress_events b s =
    (case keyboard_listener s of
       None \<Rightarrow> s
     | Some l \<Rightarrow> s\<lparr>keyboard_listener := Some (l\<lparr>k_suppress := b\<rparr>),
                   calls := calls s @ [Keyboard_suppress_events b]\<rparr>)"

definition cursor_call :: "call \<Rightarrow> controller \<Rightarrow> controller" where
  "cursor_call c s = s\<lparr>calls := calls s @ [c]\<rparr>"

definition activate :: "bool \<Rightarrow> controller \<Rightarrow> bool \<times> controller" where
  "activate driver_ok s =
    (if active s then (True, s)
     else
       (case initialize_gamepad driver_ok s of (ok, s1) \<Rightarrow>
          if \<not> ok then (False, s1)
          else
            (let s2 = wake_up s1;
                 s3 = mouse_suppress_events True s2;
                 s4 = keyboard_suppress_events True s3;
                 s5 = cursor_call Lock_to_center s4;
                 s6 = cursor_call Hide_cursor s5
             in (True, s6\<lparr>active := True\<rparr>))))"

text \<open>The state \<open>activate\<close> commits when it goes through with a device present.\<close>

definition activated :: "controller \<Rightarrow> controller" where
  "activated s =
    (cursor_call Hide_cursor (cursor_call Lock_to_center
      (keyboard_suppress_events True (mouse_suppress_events True (wake_up s)))))\<lparr>active := True\<rparr>"

definition deactivate :: "config \<Rightarrow> controller \<Rightarrow> controller" where
  "deactivate cfg s =
    (if \<not> active s then s
     else
       (let s1 = s\<lparr>active := False\<rparr>;
            s2 = reset_gamepad cfg s1;
            s3 = s2\<lparr>joystick_keys := clear_flags (joystick_keys s2)\<rparr>;
            s4 = s3\<lparr>keys := clear_flags (keys s3)\<rparr>;
            s5 = mouse_suppress_events False s4;
            s6 = keyboard_suppress_events False s5
        in cursor_call Show_cursor s6))"

section \<open>Input handlers (application/input\_handlers.py)\<close>

text \<open>
  A pynput key is either a \<open>KeyCode\<close>, which has a \<open>char\<close> attribute (possibly
  \<open>None\<close>) and prints as the second component, or a member of the \<open>Key\<close> enumeration,
  which has no \<open>char\<close> attribute and prints as \<open>Key.<name>\<close>.
\<close>

datatype pkey = KeyCode "string option" string | Key string

datatype mouse_button = Button_left | Button_right | Button_middle

text \<open>The value of \<open>key.char\<close> when \<open>hasattr(key, 'char') and key.char\<close> holds.\<close>

fun truthy_char :: "pkey \<Rightarrow> string option" where
  "truthy_char (KeyCode (Some c) r) = (if c = [] then None else Some c)"
| "truthy_char (KeyCode None r) = None"
| "truthy_char (Key n) = None"

fun str :: "pkey \<Rightarrow> string" where
  "str (KeyCode c r) = r"
| "str (Key n) = ''Key.'' @ n"

text \<open>\<open>str.lower\<close> on ASCII text.\<close>

definition lower_char :: "char \<Rightarrow> char" where
  "lower_char c =
    (let n = (of_char c :: nat) in if 65 \<le> n \<and> n \<le> 90 then char_of (n + 32) else c)"

definition lower :: "string \<Rightarrow> string" where
  "lower cs = map lower_char cs"

text \<open>\<open>s.replace(old, new)\<close> for a non-empty \<open>old\<close>: leftmost non-overlapping matches.\<close>

function replace :: "string \<Rightarrow> string \<Rightarrow> string \<Rightarrow> string" where
  "replace old new [] = []"
| "replace old new (c # cs) =
    (if old \<noteq> [] \<and> prefix old (c # cs)
     then new @ replace old new (drop (length old) (c # cs))
     else c # replace old new cs)"
  by pat_completeness auto
termination
  by (relation "measure (\<lambda>(old, new, s). length s)") auto

definition parse_key :: "pkey \<Rightarrow> string" where
  "parse_key key =
    (case truthy_char key of
       Some c \<Rightarrow> lower c
     | None \<Rightarrow>
         (let key_str = lower (replace ''Key.'' [] (str key)) in
            if key_str = ''alt'' then (if key = Key ''alt_l'' then ''alt_l'' else ''alt_r'')
            else if key_str \<in> {''shift'', ''shift_l'', ''shift_r''} then ''shift''
            else if key = Key ''esc'' then ''esc''
            else if key = Key ''tab'' then ''tab''
            else if key = Key ''space'' then ''space''
            else key_str))"

definition on_key_press :: "bool \<Rightarrow> config \<Rightarrow> pkey \<Rightarrow> controller \<Rightarrow> controller" where
  "on_key_press driver_ok cfg key s =
    (let key_str = parse_key key in
       if key_str = TOGGLE_KEY cfg then
         (if active s then deactivate cfg s else snd (activate driver_ok s))
       else if key_str \<in> set JOYSTICK_KEYS then
         s\<lparr>joystick_keys := (joystick_keys s)(key_str \<mapsto> True)\<rparr>
       else if key_str \<in> set (map fst (KEY_MAPPINGS cfg)) then
         s\<lparr>keys := (keys s)(key_str \<mapsto> True)\<rparr>
       else s)"

definition on_key_release :: "config \<Rightarrow> pkey \<Rightarrow> controller \<Rightarrow> controller" where
  "on_key_release cfg key s =
    (let key_str = parse_key key in
       if key_str \<in> set JOYSTICK_KEYS then
         s\<lparr>joystick_keys := (joystick_keys s)(key_str \<mapsto> False)\<rparr>
       else if key_str \<in> set (map fst (KEY_MAPPINGS cfg)) then
         s\<lparr>keys := (keys s)(key_str \<mapsto> False)\<rparr>
       else s)"

text \<open>\<open>on_mouse_move\<close> has no exception handler: a missing \<open>center_x\<close> or
  \<open>center_y\<close> raises before anything is written.\<close>

definition on_mouse_move :: "int \<Rightarrow> int \<Rightarrow> controller \<Rightarrow> py_error + controller" where
  "on_mouse_move x y s =
    (if \<not> active s then Inr s
     else
       (case center_x (cursor_manager s) of
          None \<Rightarrow> Inl AttributeError
        | Some cx \<Rightarrow>
            (case center_y (cursor_manager s) of
               None \<Rightarrow> Inl AttributeError
             | Some cy \<Rightarrow>
                 Inr (cursor_call Lock_to_center
                   (s\<lparr>mouse_dx := mouse_dx s + real_of_int (x - cx),
                      mouse_dy := mouse_dy s + real_of_int (y - cy)\<rparr>)))))"

definition on_mouse_click :: "mouse_button \<Rightarrow> bool \<Rightarrow> controller \<Rightarrow> controller" where
  "on_mouse_click button pressed s =
    (if button = Button_left then s\<lparr>l2_held := pressed\<rparr>
     else if button = Button_right then s\<lparr>r2_held := pressed\<rparr>
     else s)"

section \<open>Keyboard listener (application/input\_listeners.py)\<close>

definition suppress_event :: "ConditionalSuppressKeyboardListener \<Rightarrow> pkey \<Rightarrow> bool" where
  "suppress_event l event =
    (case truthy_char event of
       Some c \<Rightarrow> (if lower c = toggle_key l then False else k_suppress l)
     | None \<Rightarrow> k_suppress l)"

section \<open>Program start and executions (main.py)\<close>

text \<open>
  \<open>main\<close> builds the controller and then attaches the two listeners, the keyboard
  listener with the configured toggle key.
\<close>

definition main_start ::
    "config \<Rightarrow> CursorManager \<Rightarrow> real \<Rightarrow> bool \<Rightarrow> py_error + controller" where
  "main_start cfg cm now driver_ok =
    bind_err (GamepadController_init cfg cm now driver_ok)
      (\<lambda>s. Inr (s\<lparr>keyboard_listener := Some \<lparr>k_suppress = False, toggle_key = TOGGLE_KEY cfg\<rparr>,
                  mouse_listener := Some \<lparr>m_suppress = False\<rparr>\<rparr>))"

text \<open>
  What happens to the controller while the program runs: a pass of the processing loop
  with the clock value it reads, or a callback of a listener.  A key press may activate
  the controller, so it carries the outcome that creating the device would have.  Each
  event is paired with the configuration in force when it happens, since the tunables can
  change at any time.
\<close>

datatype event =
    Tick real
  | Key_press bool pkey
  | Key_release pkey
  | Mouse_move int int
  | Mouse_click mouse_button bool

fun step :: "config \<Rightarrow> event \<Rightarrow> controller \<Rightarrow> py_error + controller" where
  "step cfg (Tick now) s = process_inputs now cfg s"
| "step cfg (Key_press driver_ok key) s = Inr (on_key_press driver_ok cfg key s)"
| "step cfg (Key_release key) s = Inr (on_key_release cfg key s)"
| "step cfg (Mouse_move x y) s = on_mouse_move x y s"
| "step cfg (Mouse_click button pressed) s = Inr (on_mouse_click button pressed s)"

fun run :: "(config \<times> event) list \<Rightarrow> controller \<Rightarrow> py_error + controller" where
  "run [] s = Inr s"
| "run (ce # ces) s = bind_err (step (fst ce) (snd ce) s) (run ces)"

section \<open>The look-stick pipeline as the specification words it\<close>

definition spec_deadzone :: "real \<Rightarrow> real \<Rightarrow> real" where
  "spec_deadzone deadzone v = (if \<bar>v\<bar> \<le> deadzone then 0 else v)"

definition spec_smooth :: "real \<Rightarrow> real \<Rightarrow> real \<Rightarrow> real" where
  "spec_smooth smoothing prev v = prev * smoothing + v * (1 - smoothing)"

definition spec_clamp :: "real \<Rightarrow> real" where
  "spec_clamp v = (if v < - 1 then - 1 else if 1 < v then 1 else v)"

text \<open>Steps 1 to 6 of the look stick: \<open>fire\<close> and \<open>aim\<close> are the two trigger flags,
  \<open>prev\<close> the previous output, \<open>d\<close> the drained displacement.\<close>

definition spec_look_stick ::
    "config \<Rightarrow> bool \<Rightarrow> bool \<Rightarrow> real \<times> real \<Rightarrow> real \<times> real \<Rightarrow> real \<times> real" where
  "spec_look_stick cfg fire aim prev d =
    (let dx = fst d;
         dy = (if RECOIL_CONTROL_ENABLED cfg \<and> fire then snd d + RECOIL_COMPENSATION cfg
               else snd d);
         m = (if aim then ADS_SENS_MULTIPLIER cfg else 1);
         rx = dx * SENS_X cfg * m * DPI_SCALING cfg;
         ry = - (dy * SENS_Y cfg * m * DPI_SCALING cfg)
     in (spec_clamp (spec_smooth (SMOOTHING cfg) (fst prev) (spec_deadzone (DEADZONE cfg) rx)),
         spec_clamp (spec_smooth (SMOOTHING cfg) (snd prev) (spec_deadzone (DEADZONE cfg) ry))))"

section \<open>Range invariant of the look stick\<close>

definition in_range :: "real \<Rightarrow> bool" where
  "in_range v \<longleftrightarrow> - 1 \<le> v \<and> v \<le> 1"

definition look_ok :: "report \<Rightarrow> bool" where
  "look_ok r \<longleftrightarrow> in_range (fst (right_joystick r)) \<and> in_range (snd (right_joystick r))"

text \<open>The stored look-stick state, the pending report and every report sent so far are
  within range.\<close>

definition axis_inv :: "controller \<Rightarrow> bool" where
  "axis_inv s \<longleftrightarrow>
    in_range (last_rx s) \<and> in_range (last_ry s) \<and>
    (case gamepad s of None \<Rightarrow> True | Some g \<Rightarrow> look_ok (pending g) \<and> list_all look_ok (sent g))"

text \<open>What a report must satisfy to be neutral for a given mapping table.\<close>

definition neutral_for :: "config \<Rightarrow> report \<Rightarrow> bool" where
  "neutral_for cfg r \<longleftrightarrow>
    left_joystick r = (0, 0) \<and> right_joystick r = (0, 0) \<and>
    wButtons r \<inter> snd ` set (KEY_MAPPINGS cfg) = {} \<and>
    left_trigger r = 0 \<and> right_trigger r = 0"

section \<open>Concrete states and executions\<close>

definition demo_cursor :: CursorManager where
  "demo_cursor = \<lparr> enabled = True, center_x = Some 960, center_y = Some 540 \<rparr>"

definition key_t :: pkey where
  "key_t = KeyCode (Some ''t'') [CHR 0x27, CHR ''t'', CHR 0x27]"

text \<open>The controller as \<open>main\<close> leaves it when the program starts with the default
  configuration at clock value 0: device created, listeners attached, inactive.\<close>

definition idle_state :: controller where
  "idle_state =
    \<lparr> gamepad = Some new_VX360Gamepad, active = False, cursor_manager = demo_cursor,
      mouse_dx = 0, mouse_dy = 0,
      keys = all_False (map fst default_KEY_MAPPINGS),
      joystick_keys = all_False JOYSTICK_KEYS,
      last_lx = 0, last_ly = 0, last_rx = 0, last_ry = 0,
      r2_held = False, l2_held = False,
      last_update = 0, update_interval = 1 / 120,
      mouse_listener = Some \<lparr>m_suppress = False\<rparr>,
      keyboard_listener = Some \<lparr>k_suppress = False, toggle_key = ''t''\<rparr>,
      calls = [] \<rparr>"

text \<open>The same start when the device driver is missing: no device.\<close>

definition driverless_state :: controller where
  "driverless_state = idle_state\<lparr>gamepad := None\<rparr>"

definition on_default :: "event list \<Rightarrow> (config \<times> event) list" where
  "on_default es = map (Pair default_config) es"

text \<open>Toggle on.\<close>

definition live_state :: controller where
  "live_state = on_key_press True default_config key_t idle_state"

text \<open>Toggle on, then press \<open>w\<close> and \<open>d\<close>.\<close>

definition key_w :: pkey where
  "key_w = KeyCode (Some ''w'') [CHR 0x27, CHR ''w'', CHR 0x27]"

definition key_d :: pkey where
  "key_d = KeyCode (Some ''d'') [CHR 0x27, CHR ''d'', CHR 0x27]"

definition diagonal_state :: controller where
  "diagonal_state =
    on_key_press True default_config key_d (on_key_press True default_config key_w live_state)"

text \<open>Toggle on, then move the mouse 100 pixels to the right of the centre.\<close>

definition moved_state :: controller where
  "moved_state =
    live_state\<lparr>mouse_dx := 100, mouse_dy := 0, calls := calls live_state @ [Lock_to_center]\<rparr>"

text \<open>Toggle on, then hold the left mouse button.\<close>

definition firing_state :: controller where
  "firing_state = on_mouse_click Button_left True live_state"

text \<open>Toggle on, move the mouse 100 pixels to the right, toggle off, toggle on, and let
  the processing loop pass once, one second after start.\<close>

definition retoggle_run :: "py_error + controller" where
  "retoggle_run =
    run (on_default
      [Key_press True key_t, Mouse_move 1060 540, Key_press True key_t,
       Key_press True key_t, Tick 1]) idle_state"

text \<open>Toggle on, move the mouse a million pixels right and down, one pass of the loop.\<close>

definition far_move_run :: "(config \<times> event) list" where
  "far_move_run = on_default [Key_press True key_t, Mouse_move 1000960 1000540, Tick 1]"

section \<open>Effects of the operations, field by field\<close>

lemma cursor_call_fields [simp]:
  "gamepad (cursor_call c s) = gamepad s" "active (cursor_call c s) = active s"
  "mouse_dx (cursor_call c s) = mouse_dx s" "mouse_dy (cursor_call c s) = mouse_dy s"
  "keys (cursor_call c s) = keys s" "joystick_keys (cursor_call c s) = joystick_keys s"
  "last_rx (cursor_call c s) = last_rx s" "last_ry (cursor_call c s) = last_ry s"
  "l2_held (cursor_call c s) = l2_held s" "r2_held (cursor_call c s) = r2_held s"
  "last_update (cursor_call c s) = last_update s"
  "update_interval (cursor_call c s) = update_interval s"
  "cursor_manager (cursor_call c s) = cursor_manager s"
  by (simp_all add: cursor_call_def)

lemma mouse_suppress_events_fields [simp]:
  "gamepad (mouse_suppress_events b s) = gamepad s"
  "active (mouse_suppress_events b s) = active s"
  "mouse_dx (mouse_suppress_events b s) = mouse_dx s"
  "mouse_dy (mouse_suppress_events b s) = mouse_dy s"
  "keys (mouse_suppress_events b s) = keys s"
  "joystick_keys (mouse_suppress_events b s) = joystick_keys s"
  "last_rx (mouse_suppress_events b s) = last_rx s"
  "last_ry (mouse_suppress_events b s) = last_ry s"
  "l2_held (mouse_suppress_events b s) = l2_held s"
  "r2_held (mouse_suppress_events b s) = r2_held s"
  "last_update (mouse_suppress_events b s) = last_update s"
  "update_interval (mouse_suppress_events b s) = update_interval s"
  "cursor_manager (mouse_suppress_events b s) = cursor_manager s"
  by (simp_all add: mouse_suppress_events_def split: option.split)

lemma keyboard_suppress_events_fields [simp]:
  "gamepad (keyboard_suppress_events b s) = gamepad s"
  "active (keyboard_suppress_events b s) = active s"
  "mouse_dx (keyboard_suppress_events b s) = mouse_dx s"
  "mouse_dy (keyboard_suppress_events b s) = mouse_dy s"
  "keys (keyboard_suppress_events b s) = keys s"
  "joystick_keys (keyboard_suppress_events b s) = joystick_keys s"
  "last_rx (keyboard_suppress_events b s) = last_rx s"
  "last_ry (keyboard_suppress_events b s) = last_ry s"
  "l2_held (keyboard_suppress_events b s) = l2_held s"
  "r2_held (keyboard_suppress_events b s) = r2_held s"
  "last_update (keyboard_suppress_events b s) = last_update s"
  "update_interval (keyboard_suppress_events b s) = update_interval s"
  "cursor_manager (keyboard_suppress_events b s) = cursor_manager s"
  by (simp_all add: keyboard_suppress_events_def split: option.split)

lemma wake_up_fields [simp]:
  "gamepad (wake_up s) = map_option (wake_up_round ^^ 2) (gamepad s)"
  "active (wake_up s) = active s"
  "mouse_dx (wake_up s) = mouse_dx s" "mouse_dy (wake_up s) = mouse_dy s"
  "keys (wake_up s) = keys s" "joystick_keys (wake_up s) = joystick_keys s"
  "last_rx (wake_up s) = last_rx s" "last_ry (wake_up s) = last_ry s"
  "l2_held (wake_up s) = l2_held s" "r2_held (wake_up s) = r2_held s"
  "last_update (wake_up s) = last_update s"
  "update_interval (wake_up s) = update_interval s"
  "cursor_manager (wake_up s) = cursor_manager s"
  by (simp_all add: wake_up_def split: option.split)

lemma reset_gamepad_fields [simp]:
  "active (reset_gamepad cfg s) = active s"
  "mouse_dx (reset_gamepad cfg s) = mouse_dx s" "mouse_dy (reset_gamepad cfg s) = mouse_dy s"
  "keys (reset_gamepad cfg s) = keys s" "joystick_keys (reset_gamepad cfg s) = joystick_keys s"
  "last_rx (reset_gamepad cfg s) = last_rx s" "last_ry (reset_gamepad cfg s) = last_ry s"
  "l2_held (reset_gamepad cfg s) = l2_held s" "r2_held (reset_gamepad cfg s) = r2_held s"
  "last_update (reset_gamepad cfg s) = last_update s"
  "update_interval (reset_gamepad cfg s) = update_interval s"
  "cursor_manager (reset_gamepad cfg s) = cursor_manager s"
  by (simp_all add: reset_gamepad_def split: option.split)

lemma activate_inactive:
  assumes "\<not> active s" "gamepad s = Some g"
  shows "activate ok s = (True, activated s)"
  using assms by (simp add: activate_def initialize_gamepad_def activated_def Let_def)

lemma activated_fields [simp]:
  "gamepad (activated s) = map_option (wake_up_round ^^ 2) (gamepad s)"
  "active (activated s) = True"
  "mouse_dx (activated s) = mouse_dx s" "mouse_dy (activated s) = mouse_dy s"
  "keys (activated s) = keys s" "joystick_keys (activated s) = joystick_keys s"
  "last_rx (activated s) = last_rx s" "last_ry (activated s) = last_ry s"
  "l2_held (activated s) = l2_held s" "r2_held (activated s) = r2_held s"
  "last_update (activated s) = last_update s"
  "update_interval (activated s) = update_interval s"
  "cursor_manager (activated s) = cursor_manager s"
  by (simp_all add: activated_def)

lemma deactivate_fields:
  "active (deactivate cfg s) = False"
  "mouse_dx (deactivate cfg s) = mouse_dx s" "mouse_dy (deactivate cfg s) = mouse_dy s"
  "last_rx (deactivate cfg s) = last_rx s" "last_ry (deactivate cfg s) = last_ry s"
  "l2_held (deactivate cfg s) = l2_held s" "r2_held (deactivate cfg s) = r2_held s"
  "last_update (deactivate cfg s) = last_update s"
  "update_interval (deactivate cfg s) = update_interval s"
  "cursor_manager (deactivate cfg s) = cursor_manager s"
  by (simp_all add: deactivate_def Let_def)

lemma deactivate_gamepad:
  "active s \<Longrightarrow> gamepad (deactivate cfg s) = gamepad (reset_gamepad cfg (s\<lparr>active := False\<rparr>))"
  by (simp add: deactivate_def Let_def)

lemma deactivate_flags:
  "active s \<Longrightarrow> keys (deactivate cfg s) = clear_flags (keys s)"
  "active s \<Longrightarrow> joystick_keys (deactivate cfg s) = clear_flags (joystick_keys s)"
  by (simp_all add: deactivate_def Let_def)

lemma get_flag_clear_flags [simp]: "get_flag (clear_flags d) k = False"
  by (simp add: get_flag_def clear_flags_def split: option.split)

subsection \<open>The concrete states\<close>

lemma main_start_idle: "main_start default_config demo_cursor 0 True = Inr idle_state"
  by (simp add: main_start_def GamepadController_init_def bind_err_def
      initialize_gamepad_def default_config_def idle_state_def)

lemma main_start_driverless:
  "main_start default_config demo_cursor 0 False = Inr driverless_state"
  by (simp add: main_start_def GamepadController_init_def bind_err_def
      initialize_gamepad_def default_config_def idle_state_def driverless_state_def)

lemma idle_state_fields [simp]:
  "gamepad idle_state = Some new_VX360Gamepad" "active idle_state = False"
  "mouse_dx idle_state = 0" "mouse_dy idle_state = 0"
  "last_rx idle_state = 0" "last_ry idle_state = 0"
  "l2_held idle_state = False" "r2_held idle_state = False"
  "last_update idle_state = 0" "update_interval idle_state = 1 / 120"
  "cursor_manager idle_state = demo_cursor"
  "joystick_keys idle_state = all_False JOYSTICK_KEYS"
  "keys idle_state = all_False (map fst default_KEY_MAPPINGS)"
  by (simp_all add: idle_state_def)

lemma parse_key_t [simp]: "parse_key key_t = ''t''"
  by (simp add: parse_key_def key_t_def lower_def lower_char_def char_of_def)

lemma parse_key_w [simp]: "parse_key key_w = ''w''"
  by (simp add: parse_key_def key_w_def lower_def lower_char_def char_of_def)

lemma parse_key_d [simp]: "parse_key key_d = ''d''"
  by (simp add: parse_key_def key_d_def lower_def lower_char_def char_of_def)

lemma TOGGLE_KEY_default [simp]: "TOGGLE_KEY default_config = ''t''"
  by (simp add: default_config_def)

lemma live_state_eq: "live_state = activated idle_state"
  by (simp add: live_state_def on_key_press_def activate_inactive [of idle_state new_VX360Gamepad])

lemma on_mouse_move_live: "on_mouse_move 1060 540 live_state = Inr moved_state"
  by (simp add: on_mouse_move_def live_state_eq demo_cursor_def moved_state_def cursor_call_def)

lemma diagonal_state_fields:
  "gamepad diagonal_state = gamepad live_state"
  "get_flag (joystick_keys diagonal_state) ''w''" "get_flag (joystick_keys diagonal_state) ''d''"
  "\<not> get_flag (joystick_keys diagonal_state) ''a''"
  "\<not> get_flag (joystick_keys diagonal_state) ''s''"
  by (simp_all add: diagonal_state_def on_key_press_def JOYSTICK_KEYS_def live_state_eq
      get_flag_def all_False_def)

section \<open>Look stick\<close>

lemma clamp_eq: "max (- 1) (min 1 v) = spec_clamp v"
  by (simp add: spec_clamp_def max_def min_def)

lemma deadzone_eq: "(if \<bar>v\<bar> > dz then v else 0) = spec_deadzone dz v"
  by (simp add: spec_deadzone_def)

lemma right_values_spec:
  "right_joystick_values cfg s d =
     spec_look_stick cfg (l2_held s) (r2_held s) (last_rx s, last_ry s) d"
  unfolding right_joystick_values_def spec_look_stick_def Let_def clamp_eq deadzone_eq
    spec_smooth_def [symmetric]
  by (cases d) simp

lemma right_values_drained:
  "right_joystick_values cfg (s\<lparr>mouse_dx := a, mouse_dy := b\<rparr>) d = right_joystick_values cfg s d"
  unfolding right_values_spec by simp

lemma process_right_joystick_Some:
  assumes "gamepad s = Some g"
  shows "process_right_joystick cfg s =
      Inr (s\<lparr>mouse_dx := 0, mouse_dy := 0,
             gamepad := Some (right_joystick_float
               (fst (right_joystick_values cfg s (mouse_dx s, mouse_dy s)))
               (snd (right_joystick_values cfg s (mouse_dx s, mouse_dy s))) g),
             last_rx := fst (right_joystick_values cfg s (mouse_dx s, mouse_dy s)),
             last_ry := snd (right_joystick_values cfg s (mouse_dx s, mouse_dy s))\<rparr>)"
  unfolding process_right_joystick_def get_mouse_movement_def prod.case right_values_drained
  using assms by (simp add: case_prod_beta)

text \<open>
  Claim C1.  One look-stick tick on a controller whose device is present: the stored
  output \<open>last_rx\<close>, \<open>last_ry\<close> after the tick is the pipeline of the specification
  (recoil added to \<open>dy\<close> when enabled and firing, sensitivity with the ADS multiplier
  when aiming and \<open>y\<close> inverted, deadzone per axis, smoothing against the previous
  output, clamp to \<open>[-1, 1]\<close>) applied to the drained displacement; the same pair is
  what the device receives; and the accumulators are drained.
\<close>

theorem C1_look_stick_pipeline:
  assumes "gamepad s = Some g"
  shows "\<exists>s' g'. process_right_joystick cfg s = Inr s' \<and> gamepad s' = Some g' \<and>
     (last_rx s', last_ry s') =
        spec_look_stick cfg (l2_held s) (r2_held s) (last_rx s, last_ry s)
          (mouse_dx s, mouse_dy s) \<and>
     right_joystick (pending g') = (last_rx s', last_ry s') \<and>
     mouse_dx s' = 0 \<and> mouse_dy s' = 0"
  unfolding process_right_joystick_Some [OF assms] right_values_spec
  by (simp add: right_joystick_float_def)

lemma moved_state_fields:
  "gamepad moved_state = Some ((wake_up_round ^^ 2) new_VX360Gamepad)"
  "l2_held moved_state = False" "r2_held moved_state = False"
  "last_rx moved_state = 0" "last_ry moved_state = 0"
  "mouse_dx moved_state = 100" "mouse_dy moved_state = 0"
  by (simp_all add: moved_state_def live_state_eq)

lemma spec_look_stick_moved:
  "spec_look_stick default_config False False (0, 0) (100, 0) = (1, 0)"
  by (simp add: spec_look_stick_def default_config_def spec_deadzone_def spec_smooth_def
      spec_clamp_def)

theorem C1_look_stick_pipeline_witness:
  "gamepad moved_state = Some ((wake_up_round ^^ 2) new_VX360Gamepad) \<and>
   (\<exists>s'. process_right_joystick default_config moved_state = Inr s' \<and>
      (last_rx s', last_ry s') = (1, 0) \<and> mouse_dx s' = 0 \<and> mouse_dy s' = 0)"
proof -
  have h: "gamepad moved_state = Some ((wake_up_round ^^ 2) new_VX360Gamepad)"
    by (rule moved_state_fields)
  from C1_look_stick_pipeline [OF h, of default_config]
  obtain s' where "process_right_joystick default_config moved_state = Inr s'"
    and "(last_rx s', last_ry s') =
        spec_look_stick default_config (l2_held moved_state) (r2_held moved_state)
          (last_rx moved_state, last_ry moved_state) (mouse_dx moved_state, mouse_dy moved_state)"
    and "mouse_dx s' = 0" "mouse_dy s' = 0"
    by blast
  then show ?thesis
    using h by (auto simp add: moved_state_fields spec_look_stick_moved)
qed

section \<open>Movement stick\<close>

lemma fold_JOYSTICK_KEYS:
  "fold (joystick_key_step jk) JOYSTICK_KEYS (0, 0, False) =
    ((if get_flag jk ''d'' then 1 else 0) - (if get_flag jk ''a'' then 1 else 0),
     (if get_flag jk ''w'' then 1 else 0) - (if get_flag jk ''s'' then 1 else 0),
     get_flag jk ''w'' \<or> get_flag jk ''a'' \<or> get_flag jk ''s'' \<or> get_flag jk ''d'')"
  by (simp add: JOYSTICK_KEYS_def)





lemma left_none_held:
  "\<not> get_flag jk ''w'' \<Longrightarrow> \<not> get_flag jk ''a'' \<Longrightarrow> \<not> get_flag jk ''s'' \<Longrightarrow> \<not> get_flag jk ''d''
    \<Longrightarrow> left_joystick_values jk = (0, 0)"
  unfolding left_joystick_values_def fold_JOYSTICK_KEYS
  by (simp add: Let_def)


lemma process_left_joystick_Some:
  assumes "gamepad s = Some g"
  shows "process_left_joystick s =
      Inr (s\<lparr>gamepad := Some (left_joystick_float
               (fst (left_joystick_values (joystick_keys s)))
               (snd (left_joystick_values (joystick_keys s))) g),
             last_lx := fst (left_joystick_values (joystick_keys s)),
             last_ly := snd (left_joystick_values (joystick_keys s))\<rparr>)"
  unfolding process_left_joystick_def using assms by (simp add: case_prod_beta)



section \<open>Activation state machine\<close>

text \<open>
  Claim C7.  A transition request that matches the current state does nothing:
  \<open>activate\<close> on an active controller returns \<open>True\<close> and the controller as it was,
  \<open>deactivate\<close> on an inactive controller returns the controller as it was.  The whole
  state is unchanged: activation flag, input state, device with its sent reports, listeners,
  and the record of suppression, cursor and sleep calls.
\<close>

theorem C7_toggle_noop:
  "(active s \<longrightarrow> activate driver_ok s = (True, s)) \<and>
   (\<not> active s \<longrightarrow> deactivate cfg s = s)"
  by (simp add: activate_def deactivate_def)

theorem C7_toggle_noop_witness:
  "active live_state \<and> activate False live_state = (True, live_state) \<and>
   \<not> active idle_state \<and> deactivate default_config idle_state = idle_state"
  using C7_toggle_noop [of live_state False default_config]
    C7_toggle_noop [of idle_state False default_config]
  by (simp add: live_state_eq)

text \<open>
  Claim C8.  When creating the device fails during activation of an inactive controller,
  \<open>activate\<close> returns \<open>False\<close> (a value, no exception) and the controller as it was:
  still inactive, no wake-up reports, no suppression request, no cursor request.
\<close>

theorem C8_activation_failure:
  assumes "\<not> active s" "fst (initialize_gamepad driver_ok s) = False"
  shows "activate driver_ok s = (False, s)"
  using assms by (simp add: activate_def initialize_gamepad_def split: if_splits)

theorem C8_activation_failure_witness:
  "\<not> active driverless_state \<and> fst (initialize_gamepad False driverless_state) = False \<and>
   activate False driverless_state = (False, driverless_state)"
proof -
  have a: "\<not> active driverless_state"
    by (simp add: driverless_state_def)
  have b: "fst (initialize_gamepad False driverless_state) = False"
    by (simp add: initialize_gamepad_def driverless_state_def)
  from a b C8_activation_failure [OF a b] show ?thesis by blast
qed

section \<open>Listeners and handlers\<close>

lemma suppress_event_char:
  "truthy_char event = Some c \<Longrightarrow> lower c = toggle_key l \<Longrightarrow> \<not> suppress_event l event"
  by (simp add: suppress_event_def)

lemma parse_key_f1: "parse_key (Key ''f1'') = ''f1''"
  by (simp add: parse_key_def lower_def lower_char_def)

text \<open>
  Claim C9.  The toggle key is not always exempt from suppression.  With \<open>f1\<close>
  configured as the toggle key, the handler parses the special key \<open>Key.f1\<close> to \<open>f1\<close>
  and toggles on it (here: deactivates the active controller), yet the keyboard listener's
  predicate, with the same toggle key and suppression enabled, returns \<open>True\<close> for that
  event, because the event has no \<open>char\<close> attribute.
\<close>

theorem C9_special_toggle_key_suppressed:
  "parse_key (Key ''f1'') = ''f1'' \<and>
   on_key_press True (default_config\<lparr>TOGGLE_KEY := ''f1''\<rparr>) (Key ''f1'') live_state =
     deactivate (default_config\<lparr>TOGGLE_KEY := ''f1''\<rparr>) live_state \<and>
   suppress_event \<lparr>k_suppress = True, toggle_key = ''f1''\<rparr> (Key ''f1'') = True"
  by (simp add: parse_key_f1 on_key_press_def live_state_eq suppress_event_def)

text \<open>
  Claim C10.  A mouse movement that arrives while the controller is inactive leaves the
  whole controller unchanged (accumulators and cursor requests included).  While active,
  with the screen centre known, it adds the offset from the centre to the accumulators and
  requests one re-centering.
\<close>

theorem C10_mouse_move_gated:
  "(\<not> active s \<longrightarrow> on_mouse_move x y s = Inr s) \<and>
   (active s \<and> center_x (cursor_manager s) = Some cx \<and> center_y (cursor_manager s) = Some cy
      \<longrightarrow> (\<exists>s'. on_mouse_move x y s = Inr s' \<and>
             mouse_dx s' = mouse_dx s + real_of_int (x - cx) \<and>
             mouse_dy s' = mouse_dy s + real_of_int (y - cy) \<and>
             calls s' = calls s @ [Lock_to_center]))"
  by (simp add: on_mouse_move_def cursor_call_def)

theorem C10_mouse_move_gated_witness:
  "\<not> active idle_state \<and> on_mouse_move 1060 540 idle_state = Inr idle_state \<and>
   active live_state \<and>
   (\<exists>s'. on_mouse_move 1060 540 live_state = Inr s' \<and> mouse_dx s' = 100 \<and> mouse_dy s' = 0)"
  using C10_mouse_move_gated [of idle_state 1060 540 960 540]
    C10_mouse_move_gated [of live_state 1060 540 960 540]
  by (auto simp add: live_state_eq demo_cursor_def)

section \<open>The device under the setters\<close>

lemma setters_sent [simp]:
  "sent (left_joystick_float x y g) = sent g" "sent (right_joystick_float x y g) = sent g"
  "sent (press_button b g) = sent g" "sent (release_button b g) = sent g"
  "sent (left_trigger_float v g) = sent g" "sent (right_trigger_float v g) = sent g"
  "sent (update g) = sent g @ [pending g]" "pending (update g) = pending g"
  by (simp_all add: left_joystick_float_def right_joystick_float_def press_button_def
      release_button_def left_trigger_float_def right_trigger_float_def update_def)

lemma setters_left_joystick [simp]:
  "left_joystick (pending (left_joystick_float x y g)) = (x, y)"
  "left_joystick (pending (right_joystick_float x y g)) = left_joystick (pending g)"
  "left_joystick (pending (press_button b g)) = left_joystick (pending g)"
  "left_joystick (pending (release_button b g)) = left_joystick (pending g)"
  "left_joystick (pending (left_trigger_float v g)) = left_joystick (pending g)"
  "left_joystick (pending (right_trigger_float v g)) = left_joystick (pending g)"
  by (simp_all add: left_joystick_float_def right_joystick_float_def press_button_def
      release_button_def left_trigger_float_def right_trigger_float_def)

lemma setters_right_joystick [simp]:
  "right_joystick (pending (left_joystick_float x y g)) = right_joystick (pending g)"
  "right_joystick (pending (right_joystick_float x y g)) = (x, y)"
  "right_joystick (pending (press_button b g)) = right_joystick (pending g)"
  "right_joystick (pending (release_button b g)) = right_joystick (pending g)"
  "right_joystick (pending (left_trigger_float v g)) = right_joystick (pending g)"
  "right_joystick (pending (right_trigger_float v g)) = right_joystick (pending g)"
  by (simp_all add: left_joystick_float_def right_joystick_float_def press_button_def
      release_button_def left_trigger_float_def right_trigger_float_def)

lemma setters_wButtons [simp]:
  "wButtons (pending (left_joystick_float x y g)) = wButtons (pending g)"
  "wButtons (pending (right_joystick_float x y g)) = wButtons (pending g)"
  "wButtons (pending (press_button b g)) = insert b (wButtons (pending g))"
  "wButtons (pending (release_button b g)) = wButtons (pending g) - {b}"
  "wButtons (pending (left_trigger_float v g)) = wButtons (pending g)"
  "wButtons (pending (right_trigger_float v g)) = wButtons (pending g)"
  by (simp_all add: left_joystick_float_def right_joystick_float_def press_button_def
      release_button_def left_trigger_float_def right_trigger_float_def)

lemma setters_triggers [simp]:
  "left_trigger (pending (left_joystick_float x y g)) = left_trigger (pending g)"
  "left_trigger (pending (right_joystick_float x y g)) = left_trigger (pending g)"
  "left_trigger (pending (press_button b g)) = left_trigger (pending g)"
  "left_trigger (pending (release_button b g)) = left_trigger (pending g)"
  "left_trigger (pending (left_trigger_float v g)) = v"
  "left_trigger (pending (right_trigger_float v g)) = left_trigger (pending g)"
  "right_trigger (pending (left_joystick_float x y g)) = right_trigger (pending g)"
  "right_trigger (pending (right_joystick_float x y g)) = right_trigger (pending g)"
  "right_trigger (pending (press_button b g)) = right_trigger (pending g)"
  "right_trigger (pending (release_button b g)) = right_trigger (pending g)"
  "right_trigger (pending (left_trigger_float v g)) = right_trigger (pending g)"
  "right_trigger (pending (right_trigger_float v g)) = v"
  by (simp_all add: left_joystick_float_def right_joystick_float_def press_button_def
      release_button_def left_trigger_float_def right_trigger_float_def)

lemma fold_release_button [simp]:
  "sent (fold release_button bs g) = sent g"
  "left_joystick (pending (fold release_button bs g)) = left_joystick (pending g)"
  "right_joystick (pending (fold release_button bs g)) = right_joystick (pending g)"
  "left_trigger (pending (fold release_button bs g)) = left_trigger (pending g)"
  "right_trigger (pending (fold release_button bs g)) = right_trigger (pending g)"
  "wButtons (pending (fold release_button bs g)) = wButtons (pending g) - set bs"
  by (induction bs arbitrary: g; auto)+

lemma button_step_fields [simp]:
  "sent (button_step ks kb g) = sent g"
  "left_joystick (pending (button_step ks kb g)) = left_joystick (pending g)"
  "right_joystick (pending (button_step ks kb g)) = right_joystick (pending g)"
  "left_trigger (pending (button_step ks kb g)) = left_trigger (pending g)"
  "right_trigger (pending (button_step ks kb g)) = right_trigger (pending g)"
  by (simp_all add: button_step_def split: prod.split)

lemma fold_button_step [simp]:
  "sent (fold (button_step ks) kbs g) = sent g"
  "left_joystick (pending (fold (button_step ks) kbs g)) = left_joystick (pending g)"
  "right_joystick (pending (fold (button_step ks) kbs g)) = right_joystick (pending g)"
  "left_trigger (pending (fold (button_step ks) kbs g)) = left_trigger (pending g)"
  "right_trigger (pending (fold (button_step ks) kbs g)) = right_trigger (pending g)"
  by (induction kbs arbitrary: g; simp)+

lemma fold_button_step_released:
  "\<forall>k. \<not> get_flag ks k \<Longrightarrow>
     wButtons (pending (fold (button_step ks) kbs g)) = wButtons (pending g) - snd ` set kbs"
  by (induction kbs arbitrary: g) (auto simp add: button_step_def)

section \<open>The scheduler tick\<close>

lemma process_buttons_Some:
  "gamepad s = Some g \<Longrightarrow>
   process_buttons cfg s = Inr (s\<lparr>gamepad := Some (fold (button_step (keys s)) (KEY_MAPPINGS cfg) g)\<rparr>)"
  by (simp add: process_buttons_def)

lemma process_triggers_Some:
  "gamepad s = Some g \<Longrightarrow>
   process_triggers s = Inr (s\<lparr>gamepad := Some
           (left_trigger_float (if r2_held s then 1 else 0)
             (right_trigger_float (if l2_held s then 1 else 0) g))\<rparr>)"
  by (simp add: process_triggers_def)

lemma run_mappers_Some:
  assumes "gamepad s = Some g"
  shows "run_mappers cfg s = Inr (mapped cfg s g)"
  unfolding run_mappers_def mapped_def Let_def
  by (simp add: bind_err_def process_left_joystick_Some [OF assms]
      process_right_joystick_Some process_buttons_Some process_triggers_Some right_values_spec)

lemma mapped_fields [simp]:
  "active (mapped cfg s g) = active s" "last_update (mapped cfg s g) = last_update s"
  "update_interval (mapped cfg s g) = update_interval s"
  "mouse_dx (mapped cfg s g) = 0" "mouse_dy (mapped cfg s g) = 0"
  "l2_held (mapped cfg s g) = l2_held s" "r2_held (mapped cfg s g) = r2_held s"
  "keys (mapped cfg s g) = keys s" "joystick_keys (mapped cfg s g) = joystick_keys s"
  "cursor_manager (mapped cfg s g) = cursor_manager s" "calls (mapped cfg s g) = calls s"
  "last_rx (mapped cfg s g) = fst (right_joystick_values cfg s (mouse_dx s, mouse_dy s))"
  "last_ry (mapped cfg s g) = snd (right_joystick_values cfg s (mouse_dx s, mouse_dy s))"
  by (simp_all add: mapped_def Let_def)

lemma mapped_gamepad:
  "\<exists>g'. gamepad (mapped cfg s g) = Some g' \<and> sent g' = sent g \<and>
     left_joystick (pending g') = left_joystick_values (joystick_keys s) \<and>
     right_joystick (pending g') = right_joystick_values cfg s (mouse_dx s, mouse_dy s) \<and>
     left_trigger (pending g') = (if r2_held s then 1 else 0) \<and>
     right_trigger (pending g') = (if l2_held s then 1 else 0) \<and>
     ((\<forall>k. \<not> get_flag (keys s) k) \<longrightarrow>
        wButtons (pending g') = wButtons (pending g) - snd ` set (KEY_MAPPINGS cfg))"
  by (simp add: mapped_def Let_def fold_button_step_released)

lemma process_inputs_skip:
  "now - last_update s < update_interval s \<Longrightarrow> process_inputs now cfg s = Inr s"
  by (simp add: process_inputs_def)

lemma process_inputs_no_device:
  "\<not> now - last_update s < update_interval s \<Longrightarrow> gamepad s = None \<Longrightarrow>
   process_inputs now cfg s = Inr (s\<lparr>last_update := now\<rparr>)"
  by (simp add: process_inputs_def Let_def)

lemma process_inputs_inactive:
  "\<not> now - last_update s < update_interval s \<Longrightarrow> gamepad s = Some g \<Longrightarrow> \<not> active s \<Longrightarrow>
   process_inputs now cfg s = Inr (s\<lparr>last_update := now, gamepad := Some (update g)\<rparr>)"
  by (simp add: process_inputs_def Let_def bind_err_def gamepad_flush_def)

lemma process_inputs_active:
  assumes "\<not> now - last_update s < update_interval s" "gamepad s = Some g" "active s"
    and "gamepad (mapped cfg (s\<lparr>last_update := now\<rparr>) g) = Some g'"
  shows "process_inputs now cfg s =
    Inr ((mapped cfg (s\<lparr>last_update := now\<rparr>) g)\<lparr>gamepad := Some (update g')\<rparr>)"
proof -
  have "run_mappers cfg (s\<lparr>last_update := now\<rparr>) = Inr (mapped cfg (s\<lparr>last_update := now\<rparr>) g)"
    using assms(2) by (simp add: run_mappers_Some)
  then show ?thesis
    using assms by (simp add: process_inputs_def Let_def bind_err_def gamepad_flush_def)
qed

lemma tick_emits:
  assumes "\<not> now - last_update s < update_interval s" "gamepad s = Some g" "active s"
  shows "\<exists>s' g'. process_inputs now cfg s = Inr s' \<and> gamepad s' = Some g' \<and>
     sent g' = sent g @ [pending g'] \<and>
     left_joystick (pending g') = left_joystick_values (joystick_keys s) \<and>
     right_joystick (pending g') = right_joystick_values cfg s (mouse_dx s, mouse_dy s) \<and>
     left_trigger (pending g') = (if r2_held s then 1 else 0) \<and>
     right_trigger (pending g') = (if l2_held s then 1 else 0) \<and>
     ((\<forall>k. \<not> get_flag (keys s) k) \<longrightarrow>
        wButtons (pending g') = wButtons (pending g) - snd ` set (KEY_MAPPINGS cfg)) \<and>
     last_rx s' = fst (right_joystick_values cfg s (mouse_dx s, mouse_dy s)) \<and>
     last_ry s' = snd (right_joystick_values cfg s (mouse_dx s, mouse_dy s)) \<and>
     last_update s' = now \<and> active s'"
proof -
  let ?t = "s\<lparr>last_update := now\<rparr>"
  have same: "right_joystick_values cfg ?t (mouse_dx ?t, mouse_dy ?t) =
      right_joystick_values cfg s (mouse_dx s, mouse_dy s)"
    by (simp add: right_values_spec)
  from mapped_gamepad [of cfg ?t g] obtain g1 where
    g1: "gamepad (mapped cfg ?t g) = Some g1" "sent g1 = sent g"
      "left_joystick (pending g1) = left_joystick_values (joystick_keys s)"
      "right_joystick (pending g1) = right_joystick_values cfg s (mouse_dx s, mouse_dy s)"
      "left_trigger (pending g1) = (if r2_held s then 1 else 0)"
      "right_trigger (pending g1) = (if l2_held s then 1 else 0)"
      "(\<forall>k. \<not> get_flag (keys s) k) \<longrightarrow>
        wButtons (pending g1) = wButtons (pending g) - snd ` set (KEY_MAPPINGS cfg)"
    unfolding same by auto
  have run: "process_inputs now cfg s = Inr ((mapped cfg ?t g)\<lparr>gamepad := Some (update g1)\<rparr>)"
    by (rule process_inputs_active [OF assms g1(1)])
  show ?thesis
    unfolding run using g1 assms(3) same by simp
qed

lemma fold_button_step_same_start:
  "wButtons (pending g) = wButtons (pending h) \<Longrightarrow>
   wButtons (pending (fold (button_step ks) kbs g)) =
     wButtons (pending (fold (button_step ks) kbs h))"
proof (induction kbs arbitrary: g h)
  case Nil
  then show ?case by simp
next
  case (Cons kb kbs)
  have "wButtons (pending (button_step ks kb g)) = wButtons (pending (button_step ks kb h))"
    using Cons.prems by (simp add: button_step_def split: prod.split)
  from Cons.IH [OF this] show ?case
    by simp
qed

lemma fold_button_step_distinct:
  "distinct (map snd kbs) \<Longrightarrow>
   wButtons (pending (fold (button_step ks) kbs g)) =
     (wButtons (pending g) - snd ` set kbs) \<union> {b. \<exists>k. (k, b) \<in> set kbs \<and> get_flag ks k}"
proof (induction kbs arbitrary: g)
  case Nil
  then show ?case by simp
next
  case (Cons kb kbs)
  obtain k b where kb: "kb = (k, b)" by (cases kb)
  from Cons.prems kb have fresh: "b \<notin> snd ` set kbs" and d: "distinct (map snd kbs)"
    by auto
  have step: "wButtons (pending (button_step ks (k, b) g)) =
      (if get_flag ks k then insert b (wButtons (pending g)) else wButtons (pending g) - {b})"
    by (simp add: button_step_def)
  have "wButtons (pending (fold (button_step ks) (kb # kbs) g)) =
      (wButtons (pending (button_step ks (k, b) g)) - snd ` set kbs) \<union>
        {b. \<exists>k. (k, b) \<in> set kbs \<and> get_flag ks k}"
    by (simp add: kb Cons.IH [OF d])
  also have "\<dots> = (wButtons (pending g) - snd ` set (kb # kbs)) \<union>
        {b. \<exists>k. (k, b) \<in> set (kb # kbs) \<and> get_flag ks k}"
    unfolding step kb using fresh by auto
  finally show ?case .
qed

text \<open>
  Claim C5.  One pass of \<open>process_inputs\<close> at clock value \<open>now\<close>.  If less than the
  period has elapsed since the last emitted tick, nothing at all changes: nothing is
  mapped and nothing is sent.  Otherwise the time of the last tick becomes \<open>now\<close>, and
  with a device present exactly one report is sent, in either state.  When inactive that
  is the only other effect: the report sent is the pending one, untouched, and the input
  state is not read or drained.  When active the report sent carries what the four
  mappers compute from the input state: the movement vector of the held directional keys
  on the left stick, the look-stick pipeline applied to the drained displacement on the
  right stick, the button loop over the mapping table (with a one-to-one table: exactly
  the buttons of held keys among the mapped ones, the others as they were), the aim flag
  on the left trigger and the fire flag on the right trigger; the stick outputs are
  stored and the accumulators are drained.  Without a device nothing is mapped or sent.
\<close>

theorem C5_scheduler_tick:
  "(now - last_update s < update_interval s \<longrightarrow> process_inputs now cfg s = Inr s) \<and>
   (\<not> now - last_update s < update_interval s \<and> gamepad s = Some g \<and> \<not> active s \<longrightarrow>
      process_inputs now cfg s = Inr (s\<lparr>last_update := now, gamepad := Some (update g)\<rparr>) \<and>
      sent (update g) = sent g @ [pending g] \<and> pending (update g) = pending g) \<and>
   (\<not> now - last_update s < update_interval s \<and> gamepad s = Some g \<and> active s \<longrightarrow>
      (\<exists>s' g'. process_inputs now cfg s = Inr s' \<and> gamepad s' = Some g' \<and>
         sent g' = sent g @ [pending g'] \<and>
         left_joystick (pending g') = left_joystick_values (joystick_keys s) \<and>
         right_joystick (pending g') = right_joystick_values cfg s (mouse_dx s, mouse_dy s) \<and>
         wButtons (pending g') =
           wButtons (pending (fold (button_step (keys s)) (KEY_MAPPINGS cfg) g)) \<and>
         (distinct (map snd (KEY_MAPPINGS cfg)) \<longrightarrow>
            wButtons (pending g') =
              (wButtons (pending g) - snd ` set (KEY_MAPPINGS cfg)) \<union>
              {b. \<exists>k. (k, b) \<in> set (KEY_MAPPINGS cfg) \<and> get_flag (keys s) k}) \<and>
         left_trigger (pending g') = (if r2_held s then 1 else 0) \<and>
         right_trigger (pending g') = (if l2_held s then 1 else 0) \<and>
         (last_lx s', last_ly s') = left_joystick_values (joystick_keys s) \<and>
         (last_rx s', last_ry s') = right_joystick_values cfg s (mouse_dx s, mouse_dy s) \<and>
         mouse_dx s' = 0 \<and> mouse_dy s' = 0 \<and>
         last_update s' = now \<and> active s' \<and>
         keys s' = keys s \<and> joystick_keys s' = joystick_keys s \<and>
         l2_held s' = l2_held s \<and> r2_held s' = r2_held s \<and> calls s' = calls s)) \<and>
   (\<not> now - last_update s < update_interval s \<and> gamepad s = None \<longrightarrow>
      process_inputs now cfg s = Inr (s\<lparr>last_update := now\<rparr>))"
proof -
  have skip: "now - last_update s < update_interval s \<longrightarrow> process_inputs now cfg s = Inr s"
    by (simp add: process_inputs_skip)
  have idle: "\<not> now - last_update s < update_interval s \<and> gamepad s = Some g \<and> \<not> active s \<longrightarrow>
      process_inputs now cfg s = Inr (s\<lparr>last_update := now, gamepad := Some (update g)\<rparr>) \<and>
      sent (update g) = sent g @ [pending g] \<and> pending (update g) = pending g"
    by (simp add: process_inputs_inactive)
  have none: "\<not> now - last_update s < update_interval s \<and> gamepad s = None \<longrightarrow>
      process_inputs now cfg s = Inr (s\<lparr>last_update := now\<rparr>)"
    by (simp add: process_inputs_no_device)
  have live: "\<not> now - last_update s < update_interval s \<and> gamepad s = Some g \<and> active s \<longrightarrow>
      (\<exists>s' g'. process_inputs now cfg s = Inr s' \<and> gamepad s' = Some g' \<and>
         sent g' = sent g @ [pending g'] \<and>
         left_joystick (pending g') = left_joystick_values (joystick_keys s) \<and>
         right_joystick (pending g') = right_joystick_values cfg s (mouse_dx s, mouse_dy s) \<and>
         wButtons (pending g') =
           wButtons (pending (fold (button_step (keys s)) (KEY_MAPPINGS cfg) g)) \<and>
         (distinct (map snd (KEY_MAPPINGS cfg)) \<longrightarrow>
            wButtons (pending g') =
              (wButtons (pending g) - snd ` set (KEY_MAPPINGS cfg)) \<union>
              {b. \<exists>k. (k, b) \<in> set (KEY_MAPPINGS cfg) \<and> get_flag (keys s) k}) \<and>
         left_trigger (pending g') = (if r2_held s then 1 else 0) \<and>
         right_trigger (pending g') = (if l2_held s then 1 else 0) \<and>
         (last_lx s', last_ly s') = left_joystick_values (joystick_keys s) \<and>
         (last_rx s', last_ry s') = right_joystick_values cfg s (mouse_dx s, mouse_dy s) \<and>
         mouse_dx s' = 0 \<and> mouse_dy s' = 0 \<and>
         last_update s' = now \<and> active s' \<and>
         keys s' = keys s \<and> joystick_keys s' = joystick_keys s \<and>
         l2_held s' = l2_held s \<and> r2_held s' = r2_held s \<and> calls s' = calls s)"
  proof
    assume a: "\<not> now - last_update s < update_interval s \<and> gamepad s = Some g \<and> active s"
    let ?t = "s\<lparr>last_update := now\<rparr>"
    let ?l = "left_joystick_values (joystick_keys s)"
    let ?r = "right_joystick_values cfg s (mouse_dx s, mouse_dy s)"
    let ?g0 = "right_joystick_float (fst ?r) (snd ?r) (left_joystick_float (fst ?l) (snd ?l) g)"
    let ?g1 = "left_trigger_float (if r2_held s then 1 else 0)
        (right_trigger_float (if l2_held s then 1 else 0)
          (fold (button_step (keys s)) (KEY_MAPPINGS cfg) ?g0))"
    let ?s' = "(mapped cfg ?t g)\<lparr>gamepad := Some (update ?g1)\<rparr>"
    have gm: "gamepad (mapped cfg ?t g) = Some ?g1"
      by (simp add: mapped_def Let_def right_values_spec)
    from a have p: "process_inputs now cfg s = Inr ?s'"
      by (simp add: process_inputs_active [OF _ _ _ gm])
    have w: "wButtons (pending (fold (button_step (keys s)) (KEY_MAPPINGS cfg) ?g0)) =
        wButtons (pending (fold (button_step (keys s)) (KEY_MAPPINGS cfg) g))"
      by (rule fold_button_step_same_start) simp
    have lst: "(last_lx ?s', last_ly ?s') = ?l" "(last_rx ?s', last_ry ?s') = ?r"
      by (simp_all add: mapped_def Let_def right_values_spec)
    have dev: "sent (update ?g1) = sent g @ [pending (update ?g1)]"
      "left_joystick (pending (update ?g1)) = ?l" "right_joystick (pending (update ?g1)) = ?r"
      "wButtons (pending (update ?g1)) =
         wButtons (pending (fold (button_step (keys s)) (KEY_MAPPINGS cfg) g))"
      "left_trigger (pending (update ?g1)) = (if r2_held s then 1 else 0)"
      "right_trigger (pending (update ?g1)) = (if l2_held s then 1 else 0)"
      by (simp_all add: w)
    have dist: "distinct (map snd (KEY_MAPPINGS cfg)) \<longrightarrow>
        wButtons (pending (update ?g1)) =
          (wButtons (pending g) - snd ` set (KEY_MAPPINGS cfg)) \<union>
          {b. \<exists>k. (k, b) \<in> set (KEY_MAPPINGS cfg) \<and> get_flag (keys s) k}"
      by (simp add: dev(4) fold_button_step_distinct)
    have rest: "gamepad ?s' = Some (update ?g1)" "mouse_dx ?s' = 0" "mouse_dy ?s' = 0"
      "last_update ?s' = now" "active ?s' = active s"
      "keys ?s' = keys s" "joystick_keys ?s' = joystick_keys s"
      "l2_held ?s' = l2_held s" "r2_held ?s' = r2_held s" "calls ?s' = calls s"
      by simp_all
    from a have "active ?s'" by (simp add: rest)
    with p dev dist lst rest show "\<exists>s' g'. process_inputs now cfg s = Inr s' \<and> gamepad s' = Some g' \<and>
         sent g' = sent g @ [pending g'] \<and>
         left_joystick (pending g') = left_joystick_values (joystick_keys s) \<and>
         right_joystick (pending g') = right_joystick_values cfg s (mouse_dx s, mouse_dy s) \<and>
         wButtons (pending g') =
           wButtons (pending (fold (button_step (keys s)) (KEY_MAPPINGS cfg) g)) \<and>
         (distinct (map snd (KEY_MAPPINGS cfg)) \<longrightarrow>
            wButtons (pending g') =
              (wButtons (pending g) - snd ` set (KEY_MAPPINGS cfg)) \<union>
              {b. \<exists>k. (k, b) \<in> set (KEY_MAPPINGS cfg) \<and> get_flag (keys s) k}) \<and>
         left_trigger (pending g') = (if r2_held s then 1 else 0) \<and>
         right_trigger (pending g') = (if l2_held s then 1 else 0) \<and>
         (last_lx s', last_ly s') = left_joystick_values (joystick_keys s) \<and>
         (last_rx s', last_ry s') = right_joystick_values cfg s (mouse_dx s, mouse_dy s) \<and>
         mouse_dx s' = 0 \<and> mouse_dy s' = 0 \<and>
         last_update s' = now \<and> active s' \<and>
         keys s' = keys s \<and> joystick_keys s' = joystick_keys s \<and>
         l2_held s' = l2_held s \<and> r2_held s' = r2_held s \<and> calls s' = calls s"
      by (intro exI [of _ ?s'] exI [of _ "update ?g1"]) (simp only: simp_thms)
  qed
  from skip idle live none show ?thesis by (intro conjI)
qed

lemma moved_state_timing:
  "active moved_state" "last_update moved_state = 0" "update_interval moved_state = 1 / 120"
  by (simp_all add: moved_state_def live_state_eq)

lemma get_flag_all_False [simp]: "get_flag (all_False ks) k = False"
  by (induction ks) (auto simp add: get_flag_def all_False_def)

lemma moved_state_buttons:
  "keys moved_state = all_False (map fst default_KEY_MAPPINGS)"
  "joystick_keys moved_state = all_False JOYSTICK_KEYS"
  "wButtons (pending ((wake_up_round ^^ 2) new_VX360Gamepad)) = {}"
  "distinct (map snd (KEY_MAPPINGS default_config))"
  by (simp_all add: moved_state_def live_state_eq numeral_2_eq_2 wake_up_round_def
      new_VX360Gamepad_def neutral_report_def default_config_def default_KEY_MAPPINGS_def)

theorem C5_scheduler_tick_witness:
  "process_inputs 0.001 default_config idle_state = Inr idle_state \<and>
   process_inputs 1 default_config idle_state =
     Inr (idle_state\<lparr>last_update := 1, gamepad := Some (update new_VX360Gamepad)\<rparr>) \<and>
   (\<exists>s' g'. process_inputs 1 default_config moved_state = Inr s' \<and> gamepad s' = Some g' \<and>
      last (sent g') = pending g' \<and>
      left_joystick (pending g') = (0, 0) \<and> right_joystick (pending g') = (1, 0) \<and>
      wButtons (pending g') = {} \<and>
      left_trigger (pending g') = 0 \<and> right_trigger (pending g') = 0 \<and>
      (last_rx s', last_ry s') = (1, 0) \<and> mouse_dx s' = 0 \<and> mouse_dy s' = 0) \<and>
   process_inputs 1 default_config driverless_state = Inr (driverless_state\<lparr>last_update := 1\<rparr>)"
proof -
  let ?G = "(wake_up_round ^^ 2) new_VX360Gamepad"
  have 1: "process_inputs 0.001 default_config idle_state = Inr idle_state"
    using C5_scheduler_tick [where now = "0.001" and s = idle_state and cfg = default_config
        and g = new_VX360Gamepad]
    by simp
  have 2: "process_inputs 1 default_config idle_state =
     Inr (idle_state\<lparr>last_update := 1, gamepad := Some (update new_VX360Gamepad)\<rparr>)"
    using C5_scheduler_tick [where now = 1 and s = idle_state and cfg = default_config
        and g = new_VX360Gamepad]
    by simp
  have 4: "process_inputs 1 default_config driverless_state =
      Inr (driverless_state\<lparr>last_update := 1\<rparr>)"
    using C5_scheduler_tick [where now = 1 and s = driverless_state and cfg = default_config
        and g = new_VX360Gamepad]
    by (simp add: driverless_state_def)
  have h: "\<not> 1 - last_update moved_state < update_interval moved_state \<and>
      gamepad moved_state = Some ?G \<and> active moved_state"
    by (simp add: moved_state_timing moved_state_fields)
  have l: "left_joystick_values (joystick_keys moved_state) = (0, 0)"
    by (simp add: moved_state_buttons left_none_held)
  have r: "right_joystick_values default_config moved_state
      (mouse_dx moved_state, mouse_dy moved_state) = (1, 0)"
    by (simp add: right_values_spec moved_state_fields spec_look_stick_moved)
  have w: "(wButtons (pending ?G) - snd ` set (KEY_MAPPINGS default_config)) \<union>
      {b. \<exists>k. (k, b) \<in> set (KEY_MAPPINGS default_config) \<and> get_flag (keys moved_state) k} = {}"
    by (simp add: moved_state_buttons)
  from mp [OF conjunct1 [OF conjunct2 [OF conjunct2 [OF
        C5_scheduler_tick [where now = 1 and s = moved_state and cfg = default_config
          and g = ?G]]]] h]
  obtain s' g' where
    p: "process_inputs 1 default_config moved_state = Inr s'" and gp: "gamepad s' = Some g'"
    and st: "sent g' = sent ?G @ [pending g']"
    and lj: "left_joystick (pending g') = left_joystick_values (joystick_keys moved_state)"
    and rj: "right_joystick (pending g') = right_joystick_values default_config moved_state
        (mouse_dx moved_state, mouse_dy moved_state)"
    and wb: "distinct (map snd (KEY_MAPPINGS default_config)) \<longrightarrow>
        wButtons (pending g') =
          (wButtons (pending ?G) - snd ` set (KEY_MAPPINGS default_config)) \<union>
          {b. \<exists>k. (k, b) \<in> set (KEY_MAPPINGS default_config) \<and> get_flag (keys moved_state) k}"
    and lt: "left_trigger (pending g') = (if r2_held moved_state then 1 else 0)"
    and rt: "right_trigger (pending g') = (if l2_held moved_state then 1 else 0)"
    and ls: "(last_rx s', last_ry s') = right_joystick_values default_config moved_state
        (mouse_dx moved_state, mouse_dy moved_state)"
    and md: "mouse_dx s' = 0" "mouse_dy s' = 0"
    by blast
  from wb have wb': "wButtons (pending g') = {}"
    unfolding w using moved_state_buttons(4) by simp
  have 3: "\<exists>s' g'. process_inputs 1 default_config moved_state = Inr s' \<and> gamepad s' = Some g' \<and>
      last (sent g') = pending g' \<and>
      left_joystick (pending g') = (0, 0) \<and> right_joystick (pending g') = (1, 0) \<and>
      wButtons (pending g') = {} \<and>
      left_trigger (pending g') = 0 \<and> right_trigger (pending g') = 0 \<and>
      (last_rx s', last_ry s') = (1, 0) \<and> mouse_dx s' = 0 \<and> mouse_dy s' = 0"
    using p gp st lj [unfolded l] rj [unfolded r] wb' lt rt ls [unfolded r] md
    by (intro exI [of _ s'] exI [of _ g']) (simp add: moved_state_fields)
  from 1 2 3 4 show ?thesis by (intro conjI)
qed

section \<open>Deactivation\<close>

lemma reset_gamepad_Some:
  "gamepad s = Some g \<Longrightarrow>
   \<exists>g'. gamepad (reset_gamepad cfg s) = Some g' \<and> sent g' = sent g @ [pending g'] \<and>
     left_joystick (pending g') = (0, 0) \<and> right_joystick (pending g') = (0, 0) \<and>
     wButtons (pending g') = wButtons (pending g) - snd ` set (KEY_MAPPINGS cfg) \<and>
     left_trigger (pending g') = 0 \<and> right_trigger (pending g') = 0"
  by (simp add: reset_gamepad_def)

lemma reset_gamepad_None: "gamepad s = None \<Longrightarrow> gamepad (reset_gamepad cfg s) = None"
  by (simp add: reset_gamepad_def)

lemma firing_state_reached:
  "run (on_default [Key_press True key_t, Mouse_click Button_left True]) idle_state =
     Inr firing_state"
  by (simp add: on_default_def bind_err_def firing_state_def live_state_def)

text \<open>
  Claim C4, as stated, fails: deactivation does not clear the trigger-held flags.  After
  toggling on and pressing the left mouse button, the fire flag \<open>l2_held\<close> is set, and it
  is still set after \<open>deactivate\<close>.
\<close>

theorem C4_trigger_flag_survives:
  "active firing_state \<and> l2_held firing_state \<and>
   l2_held (deactivate default_config firing_state)"
  by (simp add: firing_state_def on_mouse_click_def live_state_eq deactivate_fields)

text \<open>
  Claim C4, amended.  Deactivating an active controller, whatever is held: the controller
  is inactive afterwards; the device, if there is one, has both sticks at \<open>(0, 0)\<close>, no
  mapped button pressed and both triggers at 0, and that report is the last one sent;
  every held-key flag and every held-joystick-key flag reads false.  The two trigger-held
  flags \<open>l2_held\<close> and \<open>r2_held\<close> keep the values they had.
\<close>

theorem C4_deactivate_resets:
  assumes "active s"
  shows "\<not> active (deactivate cfg s) \<and>
    (case gamepad (deactivate cfg s) of
       None \<Rightarrow> gamepad s = None
     | Some g' \<Rightarrow> neutral_for cfg (pending g') \<and> sent g' \<noteq> [] \<and> last (sent g') = pending g') \<and>
    (\<forall>k. \<not> get_flag (keys (deactivate cfg s)) k) \<and>
    (\<forall>k. \<not> get_flag (joystick_keys (deactivate cfg s)) k) \<and>
    l2_held (deactivate cfg s) = l2_held s \<and> r2_held (deactivate cfg s) = r2_held s"
proof -
  have dev: "case gamepad (deactivate cfg s) of
       None \<Rightarrow> gamepad s = None
     | Some g' \<Rightarrow> neutral_for cfg (pending g') \<and> sent g' \<noteq> [] \<and> last (sent g') = pending g'"
  proof (cases "gamepad s")
    case None
    then show ?thesis
      using assms by (simp add: deactivate_gamepad reset_gamepad_None)
  next
    case (Some g)
    then have "gamepad (s\<lparr>active := False\<rparr>) = Some g" by simp
    from reset_gamepad_Some [OF this, of cfg] obtain g' where
      "gamepad (reset_gamepad cfg (s\<lparr>active := False\<rparr>)) = Some g'"
      "sent g' = sent g @ [pending g']"
      "left_joystick (pending g') = (0, 0)" "right_joystick (pending g') = (0, 0)"
      "wButtons (pending g') = wButtons (pending g) - snd ` set (KEY_MAPPINGS cfg)"
      "left_trigger (pending g') = 0" "right_trigger (pending g') = 0"
      by blast
    then show ?thesis
      using assms by (auto simp add: deactivate_gamepad neutral_for_def)
  qed
  show ?thesis
    using assms dev by (simp add: deactivate_fields deactivate_flags)
qed

theorem C4_deactivate_resets_witness:
  "active diagonal_state \<and> get_flag (joystick_keys diagonal_state) ''w'' \<and>
   \<not> active (deactivate default_config diagonal_state) \<and>
   \<not> get_flag (joystick_keys (deactivate default_config diagonal_state)) ''w'' \<and>
   gamepad (deactivate default_config diagonal_state) \<noteq> None \<and>
   neutral_for default_config (pending (the (gamepad (deactivate default_config diagonal_state))))"
proof -
  have a: "active diagonal_state"
    by (simp add: diagonal_state_def on_key_press_def JOYSTICK_KEYS_def live_state_eq Let_def)
  have g: "gamepad diagonal_state \<noteq> None"
    by (simp add: diagonal_state_fields live_state_eq)
  have d: "gamepad (deactivate default_config diagonal_state) \<noteq> None"
    using g C4_deactivate_resets [OF a, of default_config]
    by (auto split: option.splits)
  then have "neutral_for default_config
      (pending (the (gamepad (deactivate default_config diagonal_state))))"
    using C4_deactivate_resets [OF a, of default_config] by (auto split: option.splits)
  with a d diagonal_state_fields(2) C4_deactivate_resets [OF a, of default_config]
  show ?thesis by blast
qed

section \<open>Re-activation\<close>

lemma activate_success:
  assumes "\<not> active s" "activate driver_ok s = (True, s')"
  shows "\<exists>g. gamepad s' = Some ((wake_up_round ^^ 2) g) \<and>
     (gamepad s = None \<longrightarrow> g = new_VX360Gamepad) \<and> (gamepad s \<noteq> None \<longrightarrow> gamepad s = Some g) \<and>
     active s' \<and> mouse_dx s' = mouse_dx s \<and> mouse_dy s' = mouse_dy s \<and>
     keys s' = keys s \<and> joystick_keys s' = joystick_keys s \<and>
     last_rx s' = last_rx s \<and> last_ry s' = last_ry s \<and>
     l2_held s' = l2_held s \<and> r2_held s' = r2_held s"
proof (cases "gamepad s")
  case None
  with assms have ok: "driver_ok"
    by (auto simp add: activate_def initialize_gamepad_def split: if_splits)
  have "activate driver_ok s = (True, activated (s\<lparr>gamepad := Some new_VX360Gamepad\<rparr>))"
    using assms(1) None ok
    by (simp add: activate_def initialize_gamepad_def activated_def Let_def)
  with assms(2) have "s' = activated (s\<lparr>gamepad := Some new_VX360Gamepad\<rparr>)" by simp
  then show ?thesis using None by simp
next
  case (Some g)
  from activate_inactive [OF assms(1) Some, of driver_ok] assms(2)
  have "s' = activated s" by simp
  then show ?thesis using Some by simp
qed

lemma wake_up_round_neutral:
  "right_joystick (pending (wake_up_round g)) = (0, 0)"
  "left_joystick (pending (wake_up_round g)) = left_joystick (pending g)"
  "left_trigger (pending (wake_up_round g)) = left_trigger (pending g)"
  "right_trigger (pending (wake_up_round g)) = right_trigger (pending g)"
  "wButtons (pending (wake_up_round g)) = wButtons (pending g) - {XUSB_GAMEPAD_BACK}"
  by (auto simp add: wake_up_round_def)

lemma right_values_rest:
  assumes "\<not> l2_held s" "SMOOTHING cfg = 0 \<or> (last_rx s = 0 \<and> last_ry s = 0)"
  shows "right_joystick_values cfg s (0, 0) = (0, 0)"
  using assms
  by (auto simp add: right_values_spec spec_look_stick_def spec_deadzone_def spec_smooth_def
      spec_clamp_def)

lemma deactivate_keeps_device:
  "active s \<Longrightarrow> gamepad s \<noteq> None \<Longrightarrow> gamepad (deactivate cfg s) \<noteq> None"
  by (auto simp add: deactivate_gamepad reset_gamepad_def)

lemma retoggle_run_eq:
  "retoggle_run =
     process_inputs 1 default_config (activated (deactivate default_config moved_state))"
proof -
  have a: "active moved_state" by (rule moved_state_timing)
  have d: "\<not> active (deactivate default_config moved_state)"
    by (simp add: deactivate_fields)
  have g: "gamepad (deactivate default_config moved_state) \<noteq> None"
    using a by (simp add: deactivate_keeps_device moved_state_fields)
  then obtain h where h: "gamepad (deactivate default_config moved_state) = Some h" by blast
  have 1: "on_key_press True default_config key_t idle_state = live_state"
    by (simp add: live_state_def)
  have 2: "on_key_press True default_config key_t moved_state =
      deactivate default_config moved_state"
    using a by (simp add: on_key_press_def)
  have 3: "on_key_press True default_config key_t (deactivate default_config moved_state) =
      activated (deactivate default_config moved_state)"
    using d by (simp add: on_key_press_def activate_inactive [OF d h])
  show ?thesis
    by (simp add: retoggle_run_def on_default_def bind_err_def 1 2 3 on_mouse_move_live
        split: sum.split)
qed

lemma retoggle_nothing_held:
  "\<not> l2_held (deactivate default_config moved_state)"
  "\<not> r2_held (deactivate default_config moved_state)"
  "\<forall>k. \<not> get_flag (keys (deactivate default_config moved_state)) k"
  "\<forall>k. \<not> get_flag (joystick_keys (deactivate default_config moved_state)) k"
  using moved_state_timing(1)
  by (simp_all add: deactivate_fields deactivate_flags moved_state_fields)

text \<open>
  Claim C6, as stated, fails.  Toggle on, move the mouse 100 pixels to the right, toggle
  off, toggle on: no key and no mouse button is held at re-activation, but the
  displacement accumulated before the deactivation is still pending, and the first tick
  after re-activation sends the look stick at \<open>(1, 0)\<close>.
\<close>

theorem C6_stale_displacement_emitted:
  "\<not> isl retoggle_run \<and>
   right_joystick (last (sent (the (gamepad (projr retoggle_run))))) = (1, 0)"
proof -
  let ?s = "activated (deactivate default_config moved_state)"
  have due: "\<not> 1 - last_update ?s < update_interval ?s"
    by (simp add: deactivate_fields moved_state_timing)
  have "gamepad (deactivate default_config moved_state) \<noteq> None"
    using moved_state_timing(1) by (simp add: deactivate_keeps_device moved_state_fields)
  then obtain g where g: "gamepad ?s = Some g" by auto
  have act: "active ?s" by simp
  have v: "right_joystick_values default_config ?s (mouse_dx ?s, mouse_dy ?s) = (1, 0)"
    by (simp add: right_values_spec deactivate_fields moved_state_fields spec_look_stick_moved)
  from tick_emits [OF due g act, of default_config] obtain s' g' where
    p: "process_inputs 1 default_config ?s = Inr s'" and gp: "gamepad s' = Some g'"
    and st: "sent g' = sent g @ [pending g']"
    and rj: "right_joystick (pending g') =
       right_joystick_values default_config ?s (mouse_dx ?s, mouse_dy ?s)"
    by blast
  from rj have "right_joystick (pending g') = (1, 0)"
    unfolding v .
  then show ?thesis
    by (simp add: retoggle_run_eq p gp st)
qed

text \<open>
  Claim C6, amended.  Let an inactive controller (in particular one that was deactivated)
  be re-activated successfully while no key flag, joystick-key flag or trigger flag is
  set, no mouse displacement is pending, and either smoothing is 0 or the last look-stick
  output was \<open>(0, 0)\<close>.  Then the first tick that is due after the re-activation sends a
  neutral report: both sticks \<open>(0, 0)\<close>, no mapped button pressed, both triggers 0.
\<close>

theorem C6_reactivation_neutral:
  assumes "\<not> active s" and "activate driver_ok s = (True, s')"
    and "\<forall>k. \<not> get_flag (keys s) k" and "\<forall>k. \<not> get_flag (joystick_keys s) k"
    and "\<not> l2_held s" and "\<not> r2_held s"
    and "mouse_dx s = 0" and "mouse_dy s = 0"
    and "SMOOTHING cfg = 0 \<or> (last_rx s = 0 \<and> last_ry s = 0)"
    and "\<not> now - last_update s' < update_interval s'"
  shows "\<exists>s'' g''. process_inputs now cfg s' = Inr s'' \<and> gamepad s'' = Some g'' \<and>
    sent g'' \<noteq> [] \<and> last (sent g'') = pending g'' \<and> neutral_for cfg (pending g'')"
proof -
  from activate_success [OF assms(1,2)] obtain g where
    g: "gamepad s' = Some ((wake_up_round ^^ 2) g)" and act: "active s'"
    and same: "mouse_dx s' = mouse_dx s" "mouse_dy s' = mouse_dy s" "keys s' = keys s"
      "joystick_keys s' = joystick_keys s" "last_rx s' = last_rx s" "last_ry s' = last_ry s"
      "l2_held s' = l2_held s" "r2_held s' = r2_held s"
    by blast
  have l: "left_joystick_values (joystick_keys s') = (0, 0)"
    using assms(4) by (simp add: same left_none_held)
  have r: "right_joystick_values cfg s' (mouse_dx s', mouse_dy s') = (0, 0)"
    using assms(5,9) by (simp add: same assms(7,8) right_values_rest)
  from tick_emits [OF assms(10) g act, of cfg] obtain s'' g'' where
    t: "process_inputs now cfg s' = Inr s''" "gamepad s'' = Some g''"
      "sent g'' = sent ((wake_up_round ^^ 2) g) @ [pending g'']"
      "left_joystick (pending g'') = left_joystick_values (joystick_keys s')"
      "right_joystick (pending g'') = right_joystick_values cfg s' (mouse_dx s', mouse_dy s')"
      "left_trigger (pending g'') = (if r2_held s' then 1 else 0)"
      "right_trigger (pending g'') = (if l2_held s' then 1 else 0)"
      "(\<forall>k. \<not> get_flag (keys s') k) \<longrightarrow>
        wButtons (pending g'') =
          wButtons (pending ((wake_up_round ^^ 2) g)) - snd ` set (KEY_MAPPINGS cfg)"
    by blast
  have "neutral_for cfg (pending g'')"
    using t(4-8) l r assms(3,5,6) by (auto simp add: neutral_for_def same)
  with t(1-3) show ?thesis by auto
qed

lemma diagonal_state_rest:
  "active diagonal_state" "\<not> l2_held diagonal_state" "\<not> r2_held diagonal_state"
  "mouse_dx diagonal_state = 0" "mouse_dy diagonal_state = 0"
  "last_update diagonal_state = 0" "update_interval diagonal_state = 1 / 120"
  by (simp_all add: diagonal_state_def on_key_press_def JOYSTICK_KEYS_def live_state_eq Let_def)

theorem C6_reactivation_neutral_witness:
  "active diagonal_state \<and>
   activate True (deactivate default_config diagonal_state) =
     (True, activated (deactivate default_config diagonal_state)) \<and>
   (\<exists>s'' g''. process_inputs 1 default_config
        (activated (deactivate default_config diagonal_state)) = Inr s'' \<and>
      gamepad s'' = Some g'' \<and> last (sent g'') = pending g'' \<and>
      neutral_for default_config (pending g''))"
proof -
  let ?d = "deactivate default_config diagonal_state"
  have a: "active diagonal_state" by (rule diagonal_state_rest)
  have 1: "\<not> active ?d" by (simp add: deactivate_fields)
  have "gamepad ?d \<noteq> None"
    using a by (simp add: deactivate_keeps_device diagonal_state_fields live_state_eq)
  then obtain h where h: "gamepad ?d = Some h" by blast
  have 2: "activate True ?d = (True, activated ?d)"
    by (rule activate_inactive [OF 1 h])
  have 3: "\<forall>k. \<not> get_flag (keys ?d) k" "\<forall>k. \<not> get_flag (joystick_keys ?d) k"
    using a by (simp_all add: deactivate_flags)
  have 4: "\<not> l2_held ?d" "\<not> r2_held ?d" "mouse_dx ?d = 0" "mouse_dy ?d = 0"
    by (simp_all add: deactivate_fields diagonal_state_rest)
  have 5: "SMOOTHING default_config = 0 \<or> (last_rx ?d = 0 \<and> last_ry ?d = 0)"
    by (simp add: default_config_def)
  have 6: "\<not> 1 - last_update (activated ?d) < update_interval (activated ?d)"
    by (simp add: deactivate_fields diagonal_state_rest)
  from C6_reactivation_neutral [OF 1 2 3 4 5 6] a 2 show ?thesis
    by blast
qed

section \<open>The look stick stays in range\<close>

lemma in_range_clamp: "in_range (spec_clamp v)"
  by (simp add: in_range_def spec_clamp_def)

lemma right_values_in_range:
  "in_range (fst (right_joystick_values cfg s d))" "in_range (snd (right_joystick_values cfg s d))"
  by (simp_all add: right_values_spec spec_look_stick_def Let_def in_range_clamp)

lemma axis_inv_init:
  "GamepadController_init cfg cm now ok = Inr s \<Longrightarrow> axis_inv s \<and> last_rx s = 0 \<and> last_ry s = 0"
  by (auto simp add: GamepadController_init_def initialize_gamepad_def axis_inv_def in_range_def
      look_ok_def new_VX360Gamepad_def neutral_report_def split: if_splits)

lemma axis_inv_main_start:
  assumes "main_start cfg cm now ok = Inr s"
  shows "axis_inv s"
proof (cases "GamepadController_init cfg cm now ok")
  case (Inl e)
  with assms show ?thesis by (simp add: main_start_def bind_err_def)
next
  case (Inr i)
  then have "axis_inv i" by (simp add: axis_inv_init)
  moreover from assms Inr have
    "s = i\<lparr>keyboard_listener := Some \<lparr>k_suppress = False, toggle_key = TOGGLE_KEY cfg\<rparr>,
           mouse_listener := Some \<lparr>m_suppress = False\<rparr>\<rparr>"
    by (simp add: main_start_def bind_err_def)
  ultimately show ?thesis by (simp add: axis_inv_def)
qed

lemma axis_inv_tick:
  assumes "axis_inv s"
  shows "\<exists>s'. process_inputs now cfg s = Inr s' \<and> axis_inv s'"
proof (cases "now - last_update s < update_interval s")
  case True
  with assms show ?thesis by (simp add: process_inputs_skip)
next
  case due: False
  show ?thesis
  proof (cases "gamepad s")
    case None
    with due assms show ?thesis
      by (simp add: process_inputs_no_device axis_inv_def)
  next
    case (Some g)
    show ?thesis
    proof (cases "active s")
      case False
      with due Some assms show ?thesis
        by (simp add: process_inputs_inactive axis_inv_def)
    next
      case True
      from tick_emits [OF due Some True, of cfg] obtain s' g' where
        t: "process_inputs now cfg s = Inr s'" "gamepad s' = Some g'"
          "sent g' = sent g @ [pending g']"
          "right_joystick (pending g') = right_joystick_values cfg s (mouse_dx s, mouse_dy s)"
          "last_rx s' = fst (right_joystick_values cfg s (mouse_dx s, mouse_dy s))"
          "last_ry s' = snd (right_joystick_values cfg s (mouse_dx s, mouse_dy s))"
        by blast
      have "axis_inv s'"
        using assms Some t(2-6) by (simp add: axis_inv_def look_ok_def right_values_in_range)
      with t(1) show ?thesis by blast
    qed
  qed
qed

lemma wake_up_round_ok:
  assumes "look_ok (pending g)" "list_all look_ok (sent g)"
  shows "look_ok (pending (wake_up_round g))" "list_all look_ok (sent (wake_up_round g))"
  using assms by (simp_all add: wake_up_round_def look_ok_def in_range_def)

lemma wake_up_ok:
  assumes "look_ok (pending g)" "list_all look_ok (sent g)"
  shows "look_ok (pending ((wake_up_round ^^ 2) g))"
    "list_all look_ok (sent ((wake_up_round ^^ 2) g))"
  using assms by (simp_all add: numeral_2_eq_2 wake_up_round_ok)

lemma axis_inv_activated:
  "axis_inv s \<Longrightarrow> axis_inv (activated s)"
  by (auto simp add: axis_inv_def wake_up_ok split: option.splits)

lemma axis_inv_activate:
  assumes "axis_inv s"
  shows "axis_inv (snd (activate ok s))"
proof -
  have new: "axis_inv (s\<lparr>gamepad := Some new_VX360Gamepad\<rparr>)"
    using assms
    by (simp add: axis_inv_def look_ok_def in_range_def new_VX360Gamepad_def neutral_report_def)
  have "snd (activate ok s) = s \<or> snd (activate ok s) = activated s \<or>
      snd (activate ok s) = activated (s\<lparr>gamepad := Some new_VX360Gamepad\<rparr>)"
    by (simp add: activate_def initialize_gamepad_def activated_def Let_def)
  with assms new show ?thesis
    by (auto simp add: axis_inv_activated)
qed

lemma axis_inv_deactivate:
  assumes "axis_inv s"
  shows "axis_inv (deactivate cfg s)"
proof (cases "active s")
  case False
  with assms show ?thesis by (simp add: deactivate_def)
next
  case True
  show ?thesis
  proof (cases "gamepad s")
    case None
    with True assms show ?thesis
      by (simp add: axis_inv_def deactivate_fields deactivate_gamepad reset_gamepad_None)
  next
    case (Some g)
    then have "gamepad (s\<lparr>active := False\<rparr>) = Some g" by simp
    from reset_gamepad_Some [OF this, of cfg] obtain g' where
      "gamepad (reset_gamepad cfg (s\<lparr>active := False\<rparr>)) = Some g'"
      "sent g' = sent g @ [pending g']" "right_joystick (pending g') = (0, 0)"
      by blast
    with True Some assms show ?thesis
      by (simp add: axis_inv_def deactivate_fields deactivate_gamepad look_ok_def in_range_def)
  qed
qed

lemma axis_inv_step:
  assumes "axis_inv s" "step cfg e s = Inr s'"
  shows "axis_inv s'"
proof (cases e)
  case (Tick now)
  with assms axis_inv_tick [OF assms(1), of now cfg] show ?thesis by auto
next
  case (Key_press ok key)
  have "axis_inv (on_key_press ok cfg key s)"
    using assms(1)
    by (simp add: on_key_press_def Let_def axis_inv_activate axis_inv_deactivate)
       (simp add: axis_inv_def)
  with assms Key_press show ?thesis by simp
next
  case (Key_release key)
  with assms show ?thesis
    by (auto simp add: on_key_release_def Let_def axis_inv_def)
next
  case (Mouse_move x y)
  with assms show ?thesis
    by (auto simp add: on_mouse_move_def cursor_call_def axis_inv_def
        split: if_splits option.splits)
next
  case (Mouse_click button pressed)
  with assms show ?thesis
    by (auto simp add: on_mouse_click_def axis_inv_def)
qed

lemma axis_inv_run:
  "axis_inv s \<Longrightarrow> run ces s = Inr s' \<Longrightarrow> axis_inv s'"
proof (induction ces arbitrary: s)
  case Nil
  then show ?case by simp
next
  case (Cons ce ces)
  then show ?case
    by (cases "step (fst ce) (snd ce) s") (auto simp add: bind_err_def dest: axis_inv_step)
qed

text \<open>
  Claim C3.  The invariant \<open>axis_inv\<close> says that \<open>last_rx\<close> and \<open>last_ry\<close> lie in
  \<open>[-1, 1]\<close> and that the look stick of the pending report and of every report sent so
  far lies in \<open>[-1, 1]\<close>.  Every scheduler tick returns and preserves it, for every clock
  value, every configuration (any sensitivity, DPI scaling, ADS multiplier, recoil,
  smoothing, deadzone) and every pending displacement.  The constructor leaves
  \<open>last_rx = last_ry = 0\<close> and establishes it.  Hence it holds after every execution of
  the program from its start, whatever events occur and whatever configuration is in force
  at each of them.
\<close>

theorem C3_look_stick_bounded:
  "(axis_inv s \<longrightarrow> (\<exists>s'. process_inputs now cfg s = Inr s' \<and> axis_inv s')) \<and>
   (GamepadController_init cfg0 cm now0 ok = Inr i0 \<longrightarrow>
      last_rx i0 = 0 \<and> last_ry i0 = 0 \<and> axis_inv i0) \<and>
   (main_start cfg0 cm now0 ok = Inr s0 \<and> run ces s0 = Inr s1 \<longrightarrow>
      axis_inv s1 \<and> - 1 \<le> last_rx s1 \<and> last_rx s1 \<le> 1 \<and> - 1 \<le> last_ry s1 \<and> last_ry s1 \<le> 1)"
proof -
  have tick: "axis_inv s \<longrightarrow> (\<exists>s'. process_inputs now cfg s = Inr s' \<and> axis_inv s')"
    using axis_inv_tick [of s now cfg] by blast
  have init: "GamepadController_init cfg0 cm now0 ok = Inr i0 \<longrightarrow>
      last_rx i0 = 0 \<and> last_ry i0 = 0 \<and> axis_inv i0"
    using axis_inv_init [of cfg0 cm now0 ok i0] by blast
  have reach: "main_start cfg0 cm now0 ok = Inr s0 \<and> run ces s0 = Inr s1 \<longrightarrow>
      axis_inv s1 \<and> - 1 \<le> last_rx s1 \<and> last_rx s1 \<le> 1 \<and> - 1 \<le> last_ry s1 \<and> last_ry s1 \<le> 1"
  proof
    assume a: "main_start cfg0 cm now0 ok = Inr s0 \<and> run ces s0 = Inr s1"
    then have "axis_inv s0" by (blast intro: axis_inv_main_start)
    with a have "axis_inv s1" by (blast intro: axis_inv_run)
    then show "axis_inv s1 \<and> - 1 \<le> last_rx s1 \<and> last_rx s1 \<le> 1 \<and>
        - 1 \<le> last_ry s1 \<and> last_ry s1 \<le> 1"
      by (simp add: axis_inv_def in_range_def)
  qed
  from tick init reach show ?thesis by (intro conjI)
qed

lemma spec_look_stick_far:
  "spec_look_stick default_config False False (0, 0) (1000000, 1000000) = (1, - 1)"
  by (simp add: spec_look_stick_def default_config_def spec_deadzone_def spec_smooth_def
      spec_clamp_def)

theorem C3_look_stick_bounded_witness:
  "main_start default_config demo_cursor 0 True = Inr idle_state \<and>
   (\<exists>s1. run far_move_run idle_state = Inr s1 \<and> last_rx s1 = 1 \<and> last_ry s1 = - 1 \<and>
      axis_inv s1)"
proof -
  let ?m = "cursor_call Lock_to_center
      (live_state\<lparr>mouse_dx := mouse_dx live_state + real_of_int (1000960 - 960),
                  mouse_dy := mouse_dy live_state + real_of_int (1000540 - 540)\<rparr>)"
  have mv: "on_mouse_move 1000960 1000540 live_state = Inr ?m"
    by (simp add: on_mouse_move_def live_state_eq demo_cursor_def)
  have due: "\<not> 1 - last_update ?m < update_interval ?m"
    by (simp add: live_state_eq)
  have g: "gamepad ?m = Some ((wake_up_round ^^ 2) new_VX360Gamepad)"
    by (simp add: live_state_eq)
  have act: "active ?m" by (simp add: live_state_eq)
  have v: "right_joystick_values default_config ?m (mouse_dx ?m, mouse_dy ?m) = (1, - 1)"
    by (simp add: right_values_spec live_state_eq spec_look_stick_far)
  from tick_emits [OF due g act, of default_config] obtain s1 where
    p: "process_inputs 1 default_config ?m = Inr s1"
    and lx: "last_rx s1 = fst (right_joystick_values default_config ?m (mouse_dx ?m, mouse_dy ?m))"
    and ly: "last_ry s1 = snd (right_joystick_values default_config ?m (mouse_dx ?m, mouse_dy ?m))"
    by blast
  have r: "run far_move_run idle_state = Inr s1"
    using p by (simp add: far_move_run_def on_default_def bind_err_def live_state_def [symmetric] mv)
  have "axis_inv s1"
    using C3_look_stick_bounded [where ?cfg0.0 = default_config and cm = demo_cursor
        and ?now0.0 = 0 and ok = True and ?s0.0 = idle_state and ces = far_move_run and ?s1.0 = s1]
      main_start_idle r by simp
  with r lx ly main_start_idle show ?thesis
    unfolding v by simp
qed

end
